theory Spec2Isabelle
  imports Complex_Main
begin

section \<open>Python values as decoded from the request's JSON\<close>

text \<open>
  The report is built from \<open>data\<close>, the dictionary that \<open>request.get_json()\<close> returns.
  Its values are the Python objects a JSON document decodes to.  A Python \<open>int\<close> is
  unbounded (\<open>int\<close>); a finite Python \<open>float\<close> is represented by the rational number it
  denotes.  A float literal of the source such as \<open>0.08\<close> is therefore not its decimal value
  but the value of the double nearest to it (\<open>double\<close> below), and a product or difference
  of floats is rounded to a double again.  Comparisons between numbers are exact in Python,
  so every threshold test of the source is the same test on these rationals.  The float
  \<open>-0.0\<close>, which equals zero and prints with a minus sign, is a value of its own
  (\<open>PNegZero\<close>).  Not-a-number and the infinities are not represented: where Python gives an
  infinity (a product beyond the range of doubles) the model has the finite number, which
  changes the digits printed for such a value and nothing else.  A Python string is a
  \<open>string\<close>, one HOL character for each character.
\<close>

datatype pyval =
    PNone
  | PBool bool
  | PInt int
  | PFloat rat
  | PNegZero
  | PStr string
  | PList "pyval list"
  | PDict "(string \<times> pyval) list"

text \<open>
  The exceptions the modelled code can raise.  \<open>TransportError\<close> stands for an exception of
  the SMTP client and \<open>LibraryError\<close> for one of the PDF library, each with its message.
\<close>

datatype exn =
    TypeError
  | ValueError
  | AttributeError
  | OverflowError
  | TransportError string
  | LibraryError string

text \<open>Sequencing of computations that may raise: the first exception ends the evaluation.\<close>

definition bind_exn :: "exn + 'a \<Rightarrow> ('a \<Rightarrow> exn + 'b) \<Rightarrow> exn + 'b" where
  "bind_exn m f = (case m of Inl e \<Rightarrow> Inl e | Inr x \<Rightarrow> f x)"

fun sequence :: "(exn + 'a) list \<Rightarrow> exn + 'a list" where
  "sequence [] = Inr []"
| "sequence (m # ms) =
     (case m of
        Inl e \<Rightarrow> Inl e
      | Inr x \<Rightarrow> (case sequence ms of Inl e \<Rightarrow> Inl e | Inr xs \<Rightarrow> Inr (x # xs)))"

text \<open>\<open>data.get(key, default)\<close> on the request dictionary.\<close>

definition getd :: "(string \<rightharpoonup> pyval) \<Rightarrow> string \<Rightarrow> pyval \<Rightarrow> pyval" where
  "getd data key dflt = (case data key of None \<Rightarrow> dflt | Some v \<Rightarrow> v)"

text \<open>Truth value of an object in a condition (\<open>x if v else y\<close>, \<open>not v\<close>, \<open>v and w\<close>).\<close>

fun truthy :: "pyval \<Rightarrow> bool" where
  "truthy PNone = False"
| "truthy (PBool b) = b"
| "truthy (PInt n) = (n \<noteq> 0)"
| "truthy (PFloat x) = (x \<noteq> 0)"
| "truthy PNegZero = False"
| "truthy (PStr s) = (s \<noteq> [])"
| "truthy (PList xs) = (xs \<noteq> [])"
| "truthy (PDict kvs) = (kvs \<noteq> [])"

text \<open>
  \<open>bool\<close> is a subclass of \<open>int\<close>: \<open>True\<close> counts as 1 and \<open>False\<close> as 0 in
  arithmetic, comparison and numeric formatting.
\<close>

fun as_int :: "pyval \<Rightarrow> int option" where
  "as_int (PBool b) = Some (if b then 1 else 0)"
| "as_int (PInt n) = Some n"
| "as_int _ = None"

fun as_num :: "pyval \<Rightarrow> rat option" where
  "as_num (PBool b) = Some (if b then 1 else 0)"
| "as_num (PInt n) = Some (of_int n)"
| "as_num (PFloat x) = Some x"
| "as_num PNegZero = Some 0"
| "as_num _ = None"

text \<open>
  Ordering comparisons of an object with a numeric constant, \<open>v >= c\<close>, \<open>v <= c\<close> and
  \<open>v > c\<close>: numbers compare by value, every other JSON object raises \<open>TypeError\<close>.
\<close>

definition py_ge :: "pyval \<Rightarrow> rat \<Rightarrow> exn + bool" where
  "py_ge v c = (case as_num v of None \<Rightarrow> Inl TypeError | Some x \<Rightarrow> Inr (x \<ge> c))"

definition py_le :: "pyval \<Rightarrow> rat \<Rightarrow> exn + bool" where
  "py_le v c = (case as_num v of None \<Rightarrow> Inl TypeError | Some x \<Rightarrow> Inr (x \<le> c))"

definition py_gt :: "pyval \<Rightarrow> rat \<Rightarrow> exn + bool" where
  "py_gt v c = (case as_num v of None \<Rightarrow> Inl TypeError | Some x \<Rightarrow> Inr (x > c))"

subsection \<open>Conversion of an \<open>int\<close> to a \<open>float\<close>\<close>

text \<open>
  Formatting an \<open>int\<close> with a float presentation type, and multiplying an \<open>int\<close> by a
  \<open>float\<close>, first convert the \<open>int\<close> to a double: the value is rounded to 53 significant
  bits, ties to even, and \<open>OverflowError\<close> is raised when the rounded value does not fit.
\<close>

function bit_length :: "int \<Rightarrow> nat" where
  "bit_length n = (if n \<le> 0 then 0 else Suc (bit_length (n div 2)))"
  by pat_completeness auto
termination
  by (relation "measure nat") auto

declare bit_length.simps [simp del]

definition float_of_int :: "int \<Rightarrow> exn + rat" where
  "float_of_int n =
     (let m = \<bar>n\<bar>;
          e = bit_length m - 53;
          q = m div 2 ^ e;
          r = m mod 2 ^ e;
          q' = (if 2 * r > 2 ^ e \<or> (2 * r = 2 ^ e \<and> odd q) then q + 1 else q);
          a = q' * 2 ^ e
      in if a \<ge> 2 ^ 1024 then Inl OverflowError
         else Inr (of_int (sgn n * a)))"

subsection \<open>Rounding to a double\<close>

definition round_half_even :: "rat \<Rightarrow> int" where
  "round_half_even x =
     (let f = \<lfloor>x\<rfloor>; d = x - of_int f
      in if d < 1 / 2 then f else if d > 1 / 2 then f + 1 else if even f then f else f + 1)"

text \<open>
  The double nearest to a rational number, ties to even: 53 significant bits, the exponent
  not below that of the subnormal numbers.  This is the value that Python gives to a float
  literal and to the result of an operation on floats.
\<close>

definition pow2 :: "int \<Rightarrow> rat" where
  "pow2 e = (if e \<ge> 0 then 2 ^ nat e else 1 / 2 ^ nat (- e))"

definition floor_log2 :: "rat \<Rightarrow> int" where
  "floor_log2 q =
     (case quotient_of q of
        (a, b) \<Rightarrow>
          (let k = int (bit_length a) - int (bit_length b)
           in if pow2 k \<le> q then k else k - 1))"

definition double :: "rat \<Rightarrow> rat" where
  "double q =
     (if q = 0 then 0
      else (let e = max (floor_log2 \<bar>q\<bar> - 52) (- 1074)
            in sgn q * of_int (round_half_even (\<bar>q\<bar> / pow2 e)) * pow2 e))"

subsection \<open>Arithmetic\<close>

text \<open>
  A float operand: its sign bit and its value.  The float that an operation returns is the
  exact result rounded to a double; a zero result is \<open>-0.0\<close> when the operation gives it the
  negative sign.
\<close>

fun as_float :: "pyval \<Rightarrow> (bool \<times> rat) option" where
  "as_float (PFloat x) = Some (x < 0, x)"
| "as_float PNegZero = Some (True, 0)"
| "as_float _ = None"

definition float_result :: "bool \<Rightarrow> rat \<Rightarrow> pyval" where
  "float_result negative q =
     (let r = double q in if r = 0 \<and> negative then PNegZero else PFloat r)"

text \<open>
  \<open>a * b\<close>.  Two integers give an integer; a float operand makes the result a float
  (the integer operand is converted first), whose sign is negative when the signs of the
  operands differ, so that \<open>0 * 0.05 * -1\<close> is \<open>-0.0\<close>; a string or list times an integer is
  the sequence repeated; everything else raises \<open>TypeError\<close>.  A float product never raises.
\<close>

definition py_mul :: "pyval \<Rightarrow> pyval \<Rightarrow> exn + pyval" where
  "py_mul a b =
     (case (as_int a, as_int b) of
        (Some m, Some n) \<Rightarrow> Inr (PInt (m * n))
      | (Some m, None) \<Rightarrow>
          (case as_float b of
             Some (sy, y) \<Rightarrow>
               bind_exn (float_of_int m) (\<lambda>x. Inr (float_result ((m < 0) \<noteq> sy) (x * y)))
           | None \<Rightarrow>
               (case b of
                  PStr s \<Rightarrow> Inr (PStr (concat (replicate (nat m) s)))
                | PList xs \<Rightarrow> Inr (PList (concat (replicate (nat m) xs)))
                | _ \<Rightarrow> Inl TypeError))
      | (None, Some n) \<Rightarrow>
          (case as_float a of
             Some (sx, x) \<Rightarrow>
               bind_exn (float_of_int n) (\<lambda>y. Inr (float_result (sx \<noteq> (n < 0)) (x * y)))
           | None \<Rightarrow>
               (case a of
                  PStr s \<Rightarrow> Inr (PStr (concat (replicate (nat n) s)))
                | PList xs \<Rightarrow> Inr (PList (concat (replicate (nat n) xs)))
                | _ \<Rightarrow> Inl TypeError))
      | (None, None) \<Rightarrow>
          (case (as_float a, as_float b) of
             (Some (sx, x), Some (sy, y)) \<Rightarrow> Inr (float_result (sx \<noteq> sy) (x * y))
           | _ \<Rightarrow> Inl TypeError))"

text \<open>
  \<open>a - b\<close>: defined on numbers only.  A zero difference is \<open>-0.0\<close> only for \<open>-0.0 - 0.0\<close>.
\<close>

definition float_difference :: "bool \<times> rat \<Rightarrow> bool \<times> rat \<Rightarrow> pyval" where
  "float_difference a b =
     (case (a, b) of
        ((sx, x), (sy, y)) \<Rightarrow> float_result (sx \<and> x = 0 \<and> \<not> sy \<and> y = 0) (x - y))"

definition py_sub :: "pyval \<Rightarrow> pyval \<Rightarrow> exn + pyval" where
  "py_sub a b =
     (case (as_int a, as_int b) of
        (Some m, Some n) \<Rightarrow> Inr (PInt (m - n))
      | (Some m, None) \<Rightarrow>
          (case as_float b of
             Some fb \<Rightarrow> bind_exn (float_of_int m) (\<lambda>x. Inr (float_difference (m < 0, x) fb))
           | None \<Rightarrow> Inl TypeError)
      | (None, Some n) \<Rightarrow>
          (case as_float a of
             Some fa \<Rightarrow> bind_exn (float_of_int n) (\<lambda>y. Inr (float_difference fa (n < 0, y)))
           | None \<Rightarrow> Inl TypeError)
      | (None, None) \<Rightarrow>
          (case (as_float a, as_float b) of
             (Some fa, Some fb) \<Rightarrow> Inr (float_difference fa fb)
           | _ \<Rightarrow> Inl TypeError))"

subsection \<open>Number formatting\<close>

text \<open>The decimal digits of a non-negative integer.\<close>

definition digit_char :: "int \<Rightarrow> char" where
  "digit_char d = ''0123456789'' ! nat d"

function digits :: "int \<Rightarrow> string" where
  "digits n = (if n < 10 then [digit_char n] else digits (n div 10) @ [digit_char (n mod 10)])"
  by pat_completeness auto
termination
  by (relation "measure nat") auto

declare digits.simps [simp del]

text \<open>The thousands separator of the \<open>,\<close> format option.\<close>

function group3 :: "string \<Rightarrow> string" where
  "group3 s =
     (if length s \<le> 3 then s
      else group3 (take (length s - 3) s) @ '','' @ drop (length s - 3) s)"
  by pat_completeness auto
termination
  by (relation "measure length") auto

declare group3.simps [simp del]

text \<open>
  A float under the format specification \<open>.pf\<close> (\<open>grouped = False\<close>) or \<open>,.pf\<close>
  (\<open>grouped = True\<close>): the value is rounded to \<open>p\<close> decimals, ties to even, and the sign
  is kept even when the digits round to zero.
\<close>

definition format_f :: "bool \<Rightarrow> nat \<Rightarrow> rat \<Rightarrow> string" where
  "format_f grouped p x =
     (let n = round_half_even (\<bar>x\<bar> * 10 ^ p);
          ip = digits (n div 10 ^ p);
          fp = digits (n mod 10 ^ p)
      in (if x < 0 then ''-'' else '''')
         @ (if grouped then group3 ip else ip)
         @ (if p = 0 then '''' else ''.'' @ replicate (p - length fp) (CHR ''0'') @ fp))"

text \<open>
  \<open>format(v, spec)\<close> for such a specification, by the type of \<open>v\<close>: \<open>str\<close> rejects the
  presentation type with \<open>ValueError\<close>; \<open>None\<close>, lists and dictionaries accept no
  non-empty specification at all (\<open>TypeError\<close>).
\<close>

fun py_format_f :: "bool \<Rightarrow> nat \<Rightarrow> pyval \<Rightarrow> exn + string" where
  "py_format_f g p PNone = Inl TypeError"
| "py_format_f g p (PBool b) = Inr (format_f g p (if b then 1 else 0))"
| "py_format_f g p (PInt n) = bind_exn (float_of_int n) (\<lambda>x. Inr (format_f g p x))"
| "py_format_f g p (PFloat x) = Inr (format_f g p x)"
| "py_format_f g p PNegZero = Inr (''-'' @ format_f g p 0)"
| "py_format_f g p (PStr s) = Inl ValueError"
| "py_format_f g p (PList xs) = Inl TypeError"
| "py_format_f g p (PDict kvs) = Inl TypeError"

section \<open>Formatting helpers\<close>

definition format_currency :: "pyval \<Rightarrow> exn + string" where
  "format_currency amount =
     (if amount = PNone then Inr ''$0''
      else bind_exn (py_format_f True 0 amount) (\<lambda>s. Inr (''$'' @ s)))"

definition format_percent :: "pyval \<Rightarrow> exn + string" where
  "format_percent v =
     (if v = PNone then Inr ''0.00%''
      else bind_exn (py_mul v (PInt 100)) (\<lambda>w.
           bind_exn (py_format_f False 2 w) (\<lambda>s. Inr (s @ ''%''))))"

section \<open>Brand colours and status classification\<close>

datatype color = NAVY | CYAN | WHITE | LIGHT_GRAY | DARK_GRAY | SUCCESS | WARNING | DANGER

fun hex :: "color \<Rightarrow> string" where
  "hex NAVY = ''#1a3e5c''"
| "hex CYAN = ''#00a8e1''"
| "hex WHITE = ''#ffffff''"
| "hex LIGHT_GRAY = ''#f4f4f4''"
| "hex DARK_GRAY = ''#333333''"
| "hex SUCCESS = ''#28a745''"
| "hex WARNING = ''#ffc107''"
| "hex DANGER = ''#dc3545''"

text \<open>
  \<open>get_status_color(value, good_threshold, warn_threshold=None, higher_is_better=True)\<close>.
  The thresholds are numbers, given by their value; \<open>None\<close> is the absent warn threshold.
  The test \<open>warn_threshold and \<dots>\<close> is a truth test: it fails for \<open>None\<close> and for zero.
\<close>

definition get_status_color :: "pyval \<Rightarrow> rat \<Rightarrow> rat option \<Rightarrow> bool \<Rightarrow> exn + color" where
  "get_status_color v good_threshold warn_threshold higher_is_better =
     (if higher_is_better then
        bind_exn (py_ge v good_threshold) (\<lambda>good.
          if good then Inr SUCCESS
          else (case warn_threshold of
                  None \<Rightarrow> Inr DANGER
                | Some w \<Rightarrow>
                    if w = 0 then Inr DANGER
                    else bind_exn (py_ge v w) (\<lambda>warn. if warn then Inr WARNING else Inr DANGER)))
      else
        bind_exn (py_le v good_threshold) (\<lambda>good.
          if good then Inr SUCCESS
          else (case warn_threshold of
                  None \<Rightarrow> Inr DANGER
                | Some w \<Rightarrow>
                    if w = 0 then Inr DANGER
                    else bind_exn (py_le v w) (\<lambda>warn. if warn then Inr WARNING else Inr DANGER))))"

section \<open>The report: tables, styles and the story\<close>

text \<open>
  A table is the grid of cell values handed to \<open>Table\<close>, the column widths (in inches) and
  the style commands in the order in which \<open>setStyle\<close> received them.  A cell position is
  (column, row); a negative index counts from the end.  Paragraph styles are constant and
  are represented by their name.  What the PDF library does with these objects (the
  parsing of paragraph markup, the layout in \<open>doc.build\<close>) is a parameter of the model.
\<close>

type_synonym cellpos = "int \<times> int"

datatype cmd =
    FONTNAME cellpos cellpos string
  | FONTSIZE cellpos cellpos nat
  | TEXTCOLOR cellpos cellpos color
  | BACKGROUND cellpos cellpos color
  | ALIGN cellpos cellpos string
  | BOTTOMPADDING cellpos cellpos nat
  | TOPPADDING cellpos cellpos nat
  | LINEBELOW cellpos cellpos rat color
  | GRID cellpos cellpos rat color

record table =
  cells :: "pyval list list"
  colWidths :: "rat list"
  style :: "cmd list"

datatype flowable =
    Paragraph string string
  | Spacer nat nat
  | TableF table

text \<open>
  What the code takes from its runtime.  First the formatted current date, and the text
  Python gives for a float or a container (\<open>str(x)\<close>), and for a float under the format
  specification \<open>,\<close>; none of these can raise.  Then the PDF library: \<open>Paragraph(text, style)\<close>
  parses its text as markup and raises \<open>ValueError\<close> when it does not accept it, and
  \<open>doc.build(story)\<close> may raise while it lays the story out.
\<close>

record runtime =
  today :: string
  str_float :: "rat \<Rightarrow> string"
  str_container :: "pyval \<Rightarrow> string"
  grouped_float :: "rat \<Rightarrow> string"
  accepts_markup :: "string \<Rightarrow> bool"
  build_error :: "flowable list \<Rightarrow> exn option"

definition signed_digits :: "int \<Rightarrow> string" where
  "signed_digits n = (if n < 0 then ''-'' else '''') @ digits \<bar>n\<bar>"

text \<open>\<open>str(v)\<close>, which is also what an f-string field without a format specification gives.\<close>

fun py_str :: "runtime \<Rightarrow> pyval \<Rightarrow> string" where
  "py_str rt PNone = ''None''"
| "py_str rt (PBool b) = (if b then ''True'' else ''False'')"
| "py_str rt (PInt n) = signed_digits n"
| "py_str rt (PFloat x) = str_float rt x"
| "py_str rt PNegZero = ''-0.0''"
| "py_str rt (PStr s) = s"
| "py_str rt (PList xs) = str_container rt (PList xs)"
| "py_str rt (PDict kvs) = str_container rt (PDict kvs)"

text \<open>\<open>format(v, ',')\<close>, the field \<open>{v:,}\<close> of an f-string.\<close>

fun py_format_grouped :: "runtime \<Rightarrow> pyval \<Rightarrow> exn + string" where
  "py_format_grouped rt PNone = Inl TypeError"
| "py_format_grouped rt (PBool b) = Inr (if b then ''1'' else ''0'')"
| "py_format_grouped rt (PInt n) = Inr ((if n < 0 then ''-'' else '''') @ group3 (digits \<bar>n\<bar>))"
| "py_format_grouped rt (PFloat x) = Inr (grouped_float rt x)"
| "py_format_grouped rt PNegZero = Inr ''-0.0''"
| "py_format_grouped rt (PStr s) = Inl ValueError"
| "py_format_grouped rt (PList xs) = Inl TypeError"
| "py_format_grouped rt (PDict kvs) = Inl TypeError"

subsection \<open>Header\<close>

text \<open>
  The paragraph \<open>Prepared for\<close> holds the user name of the request, so whether the library
  accepts its markup depends on the input.  Every other paragraph of the report is a
  constant text without markup, which the library accepts.
\<close>

definition prepared_for :: "runtime \<Rightarrow> (string \<rightharpoonup> pyval) \<Rightarrow> string" where
  "prepared_for rt data =
     ''Prepared for: '' @ py_str rt (getd data ''userName'' (PStr ''N/A''))
     @ ''<br/>Date: '' @ today rt"

definition header :: "runtime \<Rightarrow> (string \<rightharpoonup> pyval) \<Rightarrow> exn + flowable list" where
  "header rt data =
     (if accepts_markup rt (prepared_for rt data) then
        Inr [Paragraph ''THE EDMUND BOGEN TEAM'' ''CustomTitle'',
             Paragraph ''AT DOUGLAS ELLIMAN REAL ESTATE'' ''CustomSubtitle'',
             Spacer 1 10,
             Paragraph ''INVESTMENT PROPERTY ANALYSIS'' ''ReportTitle'',
             Paragraph (prepared_for rt data) ''PreparedFor'',
             Spacer 1 10]
      else Inl ValueError)"

subsection \<open>Property summary\<close>

definition property_table :: "runtime \<Rightarrow> (string \<rightharpoonup> pyval) \<Rightarrow> exn + table" where
  "property_table rt data =
     (let address = py_str rt (getd data ''propertyAddress'' (PStr ''N/A'')) @ '', ''
                    @ py_str rt (getd data ''propertyCity'' (PStr '''')) @ '', ''
                    @ py_str rt (getd data ''propertyState'' (PStr ''FL'')) @ '' ''
                    @ py_str rt (getd data ''propertyZip'' (PStr ''''))
      in bind_exn (py_format_grouped rt (getd data ''sqft'' (PInt 0))) (\<lambda>sqft.
         Inr \<lparr>cells =
                [[PStr ''Address:'', PStr address],
                 [PStr ''Property Type:'', getd data ''propertyType'' (PStr ''N/A'')],
                 [PStr ''Units:'', PStr (py_str rt (getd data ''numUnits'' (PInt 1)))],
                 [PStr ''Bedrooms / Bathrooms:'',
                  PStr (py_str rt (getd data ''bedrooms'' (PStr ''N/A'')) @ '' / ''
                        @ py_str rt (getd data ''bathrooms'' (PStr ''N/A'')))],
                 [PStr ''Square Footage:'', PStr (sqft @ '' SF'')],
                 [PStr ''Year Built:'', PStr (py_str rt (getd data ''yearBuilt'' (PStr ''N/A'')))],
                 [PStr ''Lot Size:'', PStr (py_str rt (getd data ''lotSize'' (PInt 0)) @ '' acres'')]],
              colWidths = [2, 9 / 2],
              style =
                [FONTNAME (0, 0) (0, - 1) ''Helvetica-Bold'',
                 FONTNAME (1, 0) (1, - 1) ''Helvetica'',
                 FONTSIZE (0, 0) (- 1, - 1) 10,
                 TEXTCOLOR (0, 0) (0, - 1) NAVY,
                 TEXTCOLOR (1, 0) (1, - 1) DARK_GRAY,
                 BOTTOMPADDING (0, 0) (- 1, - 1) 6,
                 TOPPADDING (0, 0) (- 1, - 1) 6]\<rparr>))"

subsection \<open>Financial snapshot\<close>

text \<open>
  The cells of a row are evaluated from left to right and the rows from top to bottom, so
  the first exception in that order is the one raised.
\<close>

definition financial_table :: "(string \<rightharpoonup> pyval) \<Rightarrow> exn + table" where
  "financial_table data =
     bind_exn (sequence
       [format_currency (getd data ''purchasePrice'' (PInt 0)),
        format_currency (getd data ''grossRentMonthly'' (PInt 0)),
        format_currency (getd data ''downPayment'' (PInt 0)),
        bind_exn (py_mul (getd data ''grossRentMonthly'' (PInt 0)) (getd data ''vacancyRate'' (PInt 0))) (\<lambda>loss.
          bind_exn (py_mul loss (PInt (- 1))) format_currency),
        format_currency (getd data ''closingCosts'' (PInt 0)),
        format_currency (getd data ''otherIncomeMonthly'' (PInt 0)),
        format_currency (getd data ''rehabCosts'' (PInt 0)),
        format_currency (getd data ''effectiveIncomeMonthly'' (PInt 0)),
        format_currency (getd data ''loanAmount'' (PInt 0)),
        bind_exn (py_mul (getd data ''totalExpensesMonthly'' (PInt 0)) (PInt (- 1))) format_currency,
        format_currency (getd data ''totalCashNeeded'' (PInt 0)),
        format_currency (getd data ''noiMonthly'' (PInt 0)),
        bind_exn (py_mul (getd data ''monthlyPayment'' (PInt 0)) (PInt (- 1))) format_currency])
     (\<lambda>v.
        Inr \<lparr>cells = map (map PStr)
                [[''Purchase Price:'', v ! 0, ''Monthly Rent:'', v ! 1],
                 [''Down Payment:'', v ! 2, ''Vacancy Loss:'', v ! 3],
                 [''Closing Costs:'', v ! 4, ''Other Income:'', v ! 5],
                 [''Rehab Costs:'', v ! 6, ''Effective Income:'', v ! 7],
                 [''Loan Amount:'', v ! 8, ''Operating Expenses:'', v ! 9],
                 [''Total Cash Needed:'', v ! 10, ''NOI (Monthly):'', v ! 11],
                 ['''', '''', ''Mortgage Payment:'', v ! 12]],
             colWidths = [3 / 2, 3 / 2, 3 / 2, 3 / 2],
             style =
               [FONTNAME (0, 0) (0, - 1) ''Helvetica-Bold'',
                FONTNAME (2, 0) (2, - 1) ''Helvetica-Bold'',
                FONTNAME (1, 0) (1, - 1) ''Helvetica'',
                FONTNAME (3, 0) (3, - 1) ''Helvetica'',
                FONTSIZE (0, 0) (- 1, - 1) 9,
                TEXTCOLOR (0, 0) (0, - 1) NAVY,
                TEXTCOLOR (2, 0) (2, - 1) NAVY,
                ALIGN (1, 0) (1, - 1) ''RIGHT'',
                ALIGN (3, 0) (3, - 1) ''RIGHT'',
                BOTTOMPADDING (0, 0) (- 1, - 1) 5,
                TOPPADDING (0, 0) (- 1, - 1) 5,
                LINEBELOW (0, - 1) (- 1, - 1) 1 LIGHT_GRAY]\<rparr>)"

subsection \<open>Cash-flow highlight\<close>

text \<open>
  \<open>cf_color = SUCCESS if monthly_cf > 0 else DANGER\<close>.  The source computes this colour and
  then builds the table style without it; the model does the same.
\<close>

definition cf_color :: "(string \<rightharpoonup> pyval) \<Rightarrow> exn + color" where
  "cf_color data =
     bind_exn (py_gt (getd data ''monthlyCashFlow'' (PInt 0)) 0) (\<lambda>positive.
       Inr (if positive then SUCCESS else DANGER))"

definition cashflow_table :: "(string \<rightharpoonup> pyval) \<Rightarrow> exn + table" where
  "cashflow_table data =
     bind_exn (cf_color data) (\<lambda>cf_color.
     bind_exn (format_currency (getd data ''monthlyCashFlow'' (PInt 0))) (\<lambda>monthly.
     bind_exn (format_currency (getd data ''annualCashFlow'' (PInt 0))) (\<lambda>annual.
       Inr \<lparr>cells = map (map PStr)
               [[''MONTHLY CASH FLOW'', monthly],
                [''ANNUAL CASH FLOW'', annual]],
            colWidths = [13 / 4, 13 / 4],
            style =
              [FONTNAME (0, 0) (- 1, - 1) ''Helvetica-Bold'',
               FONTSIZE (0, 0) (- 1, - 1) 12,
               TEXTCOLOR (0, 0) (0, - 1) WHITE,
               TEXTCOLOR (1, 0) (1, - 1) WHITE,
               BACKGROUND (0, 0) (- 1, - 1) NAVY,
               ALIGN (0, 0) (- 1, - 1) ''CENTER'',
               BOTTOMPADDING (0, 0) (- 1, - 1) 12,
               TOPPADDING (0, 0) (- 1, - 1) 12]\<rparr>)))"

subsection \<open>Key metrics\<close>

text \<open>
  The conditional expression \<open>top if v >= good else (mid if v >= warn else bottom)\<close>, which
  the source writes out for the cap rate, the cash-on-cash return and the DSCR.
\<close>

definition three_tier :: "pyval \<Rightarrow> rat \<Rightarrow> rat \<Rightarrow> string \<Rightarrow> string \<Rightarrow> string \<Rightarrow> exn + string" where
  "three_tier v good warn top_label mid_label bottom_label =
     bind_exn (py_ge v good) (\<lambda>g.
       if g then Inr top_label
       else bind_exn (py_ge v warn) (\<lambda>w. Inr (if w then mid_label else bottom_label)))"

definition metrics_data :: "(string \<rightharpoonup> pyval) \<Rightarrow> exn + pyval list list" where
  "metrics_data data =
     (let cap_rate = getd data ''capRate'' (PInt 0);
          coc = getd data ''cashOnCash'' (PInt 0);
          dscr = getd data ''dscr'' (PInt 0);
          grm = getd data ''grm'' (PInt 0);
          one_pct = getd data ''onePercentRule'' (PInt 0)
      in bind_exn (sequence
           [format_percent cap_rate,
            three_tier cap_rate (double (8 / 100)) (double (6 / 100)) ''GOOD'' ''AVERAGE'' ''LOW'',
            format_percent coc,
            three_tier coc (double (10 / 100)) (double (6 / 100)) ''GOOD'' ''AVERAGE'' ''LOW'',
            py_format_f False 2 dscr,
            three_tier dscr (double (125 / 100)) (double 1) ''STRONG'' ''MARGINAL'' ''WEAK'',
            py_format_f False 2 grm,
            bind_exn (py_le grm 12) (\<lambda>g. Inr (if g then ''GOOD'' else ''HIGH'')),
            format_percent one_pct,
            bind_exn (py_ge one_pct (double (1 / 100))) (\<lambda>g. Inr (if g then ''PASS'' else ''FAIL''))])
         (\<lambda>v. Inr (map (map PStr)
            [[''Metric'', ''Value'', ''Target'', ''Status''],
             [''Cap Rate'', v ! 0, ''>= 8%'', v ! 1],
             [''Cash-on-Cash Return'', v ! 2, ''>= 10%'', v ! 3],
             [''Debt Service Coverage Ratio'', v ! 4, ''>= 1.25x'', v ! 5],
             [''Gross Rent Multiplier'', v ! 6, ''<= 12'', v ! 7],
             [''1% Rule'', v ! 8, ''>= 1%'', v ! 9]])))"

text \<open>
  The loop over \<open>enumerate(metrics_data[1:], start=1)\<close> that colours the status column:
  one \<open>TEXTCOLOR\<close> command per data row, chosen by the row's label.
\<close>

fun status_colors :: "int \<Rightarrow> pyval list list \<Rightarrow> cmd list" where
  "status_colors i [] = []"
| "status_colors i (row # rows) =
     (let status = row ! 3
      in (if status \<in> set [PStr ''GOOD'', PStr ''STRONG'', PStr ''PASS'']
            then TEXTCOLOR (3, i) (3, i) SUCCESS
          else if status \<in> set [PStr ''AVERAGE'', PStr ''MARGINAL'']
            then TEXTCOLOR (3, i) (3, i) WARNING
          else TEXTCOLOR (3, i) (3, i) DANGER)
         # status_colors (i + 1) rows)"

definition metrics_table :: "(string \<rightharpoonup> pyval) \<Rightarrow> exn + table" where
  "metrics_table data =
     bind_exn (metrics_data data) (\<lambda>rows.
       Inr \<lparr>cells = rows,
            colWidths = [5 / 2, 5 / 4, 5 / 4, 3 / 2],
            style =
              [FONTNAME (0, 0) (- 1, 0) ''Helvetica-Bold'',
               FONTNAME (0, 1) (- 1, - 1) ''Helvetica'',
               FONTSIZE (0, 0) (- 1, - 1) 9,
               BACKGROUND (0, 0) (- 1, 0) NAVY,
               TEXTCOLOR (0, 0) (- 1, 0) WHITE,
               ALIGN (1, 0) (- 1, - 1) ''CENTER'',
               BOTTOMPADDING (0, 0) (- 1, - 1) 8,
               TOPPADDING (0, 0) (- 1, - 1) 8,
               LINEBELOW (0, 0) (- 1, - 2) (1 / 2) LIGHT_GRAY,
               GRID (0, 0) (- 1, - 1) (1 / 2) LIGHT_GRAY]
              @ status_colors 1 (tl rows)\<rparr>)"

subsection \<open>Quick rules check\<close>

definition rules_data :: "(string \<rightharpoonup> pyval) \<Rightarrow> pyval list list" where
  "rules_data data = map (map PStr)
     [[''Rule'', ''Result'', ''Description''],
      [''1% Rule'', if truthy (getd data ''rule1Pass'' (PBool False)) then ''PASS'' else ''FAIL'',
       ''Monthly rent should be >= 1% of purchase price''],
      [''2% Rule'', if truthy (getd data ''rule2Pass'' (PBool False)) then ''PASS'' else ''FAIL'',
       ''Monthly rent should be >= 2% of purchase price (strong cash flow)''],
      [''50% Rule'', if truthy (getd data ''rule50Pass'' (PBool False)) then ''PASS'' else ''REVIEW'',
       ''Operating expenses should be <= 50% of rent''],
      [''70% Rule (Flip)'', if truthy (getd data ''rule70Pass'' (PBool False)) then ''PASS'' else ''FAIL'',
       ''Purchase + rehab should be <= 70% of ARV''],
      [''Cash Flow Positive'',
       if truthy (getd data ''cashFlowPositivePass'' (PBool False)) then ''YES'' else ''NO'',
       ''Property generates positive cash flow after all expenses'']]"

text \<open>The loop over \<open>enumerate(rules_data[1:], start=1)\<close> that colours the result column.\<close>

fun result_colors :: "int \<Rightarrow> pyval list list \<Rightarrow> cmd list" where
  "result_colors i [] = []"
| "result_colors i (row # rows) =
     (let result = row ! 1
      in (if result \<in> set [PStr ''PASS'', PStr ''YES'']
            then [TEXTCOLOR (1, i) (1, i) SUCCESS, FONTNAME (1, i) (1, i) ''Helvetica-Bold'']
          else if result = PStr ''REVIEW''
            then [TEXTCOLOR (1, i) (1, i) WARNING, FONTNAME (1, i) (1, i) ''Helvetica-Bold'']
          else [TEXTCOLOR (1, i) (1, i) DANGER, FONTNAME (1, i) (1, i) ''Helvetica-Bold''])
         @ result_colors (i + 1) rows)"

definition rules_table :: "(string \<rightharpoonup> pyval) \<Rightarrow> table" where
  "rules_table data =
     \<lparr>cells = rules_data data,
      colWidths = [3 / 2, 1, 4],
      style =
        [FONTNAME (0, 0) (- 1, 0) ''Helvetica-Bold'',
         FONTNAME (0, 1) (- 1, - 1) ''Helvetica'',
         FONTSIZE (0, 0) (- 1, - 1) 9,
         BACKGROUND (0, 0) (- 1, 0) NAVY,
         TEXTCOLOR (0, 0) (- 1, 0) WHITE,
         ALIGN (1, 0) (1, - 1) ''CENTER'',
         BOTTOMPADDING (0, 0) (- 1, - 1) 8,
         TOPPADDING (0, 0) (- 1, - 1) 8,
         GRID (0, 0) (- 1, - 1) (1 / 2) LIGHT_GRAY]
        @ result_colors 1 (tl (rules_data data))\<rparr>"

subsection \<open>Deal verdict\<close>

definition verdict_color :: "pyval \<Rightarrow> color" where
  "verdict_color verdict =
     (if verdict = PStr ''STRONG BUY'' then SUCCESS
      else if verdict = PStr ''CONSIDER'' then CYAN
      else if verdict = PStr ''REVIEW'' then WARNING
      else DANGER)"

definition verdict_table :: "(string \<rightharpoonup> pyval) \<Rightarrow> table" where
  "verdict_table data =
     (let verdict = getd data ''verdict'' (PStr ''REVIEW'')
      in \<lparr>cells = [[PStr ''DEAL VERDICT'', verdict]],
          colWidths = [13 / 4, 13 / 4],
          style =
            [FONTNAME (0, 0) (- 1, - 1) ''Helvetica-Bold'',
             FONTSIZE (0, 0) (0, 0) 14,
             FONTSIZE (1, 0) (1, 0) 18,
             TEXTCOLOR (0, 0) (0, 0) WHITE,
             TEXTCOLOR (1, 0) (1, 0) (verdict_color verdict),
             BACKGROUND (0, 0) (- 1, - 1) NAVY,
             ALIGN (0, 0) (- 1, - 1) ''CENTER'',
             BOTTOMPADDING (0, 0) (- 1, - 1) 15,
             TOPPADDING (0, 0) (- 1, - 1) 15]\<rparr>)"

subsection \<open>Financing details\<close>

definition financing_table :: "runtime \<Rightarrow> (string \<rightharpoonup> pyval) \<Rightarrow> exn + table" where
  "financing_table rt data =
     bind_exn (sequence
       [format_percent (getd data ''interestRate'' (PInt 0)),
        Inr (py_str rt (getd data ''loanTermYears'' (PInt 30)) @ '' years''),
        bind_exn (py_mul (getd data ''downPaymentPercent'' (PInt 0)) (PInt 100)) (\<lambda>p.
          bind_exn (py_format_f False 0 p) (\<lambda>s. Inr (s @ ''%''))),
        bind_exn (py_sub (PInt 1) (getd data ''downPaymentPercent'' (PInt 0))) (\<lambda>d.
          bind_exn (py_mul d (PInt 100)) (\<lambda>p.
            bind_exn (py_format_f False 0 p) (\<lambda>s. Inr (s @ ''%'')))),
        format_currency (getd data ''monthlyPayment'' (PInt 0)),
        format_currency (getd data ''annualDebtService'' (PInt 0))])
     (\<lambda>v.
        Inr \<lparr>cells = map (map PStr)
                [[''Interest Rate:'', v ! 0],
                 [''Loan Term:'', v ! 1],
                 [''Down Payment:'', v ! 2],
                 [''LTV Ratio:'', v ! 3],
                 [''Monthly P&I:'', v ! 4],
                 [''Annual Debt Service:'', v ! 5]],
             colWidths = [2, 2],
             style =
               [FONTNAME (0, 0) (0, - 1) ''Helvetica-Bold'',
                FONTSIZE (0, 0) (- 1, - 1) 10,
                TEXTCOLOR (0, 0) (0, - 1) NAVY,
                ALIGN (1, 0) (1, - 1) ''RIGHT'',
                BOTTOMPADDING (0, 0) (- 1, - 1) 6,
                TOPPADDING (0, 0) (- 1, - 1) 6]\<rparr>)"

subsection \<open>Footer\<close>

text \<open>
  The rule line is the box-drawing character U+2500 eighty times; a HOL character is a
  byte, so the character is written as its three UTF-8 bytes.
\<close>

definition footer :: "flowable list" where
  "footer =
     [Paragraph (concat (replicate 80 [CHR 0xE2, CHR 0x94, CHR 0x80])) ''Footer'',
      Spacer 1 10,
      Paragraph ''Compliments of The Edmund Bogen Team at Douglas Elliman Real Estate'' ''Footer'',
      Paragraph ''From Palm Beach to Miami, we can help you find your next investment property.''
        ''Footer'',
      Paragraph ''www.bogenhomes.com'' ''FooterLink'',
      Spacer 1 10,
      Paragraph (''DISCLAIMER: This analysis is for informational purposes only. Actual results may vary. ''
                 @ ''Please consult with qualified professionals before making investment decisions.'')
        ''Disclaimer'']"

subsection \<open>The whole story\<close>

text \<open>
  The story in the order in which the source builds it, and then \<open>doc.build(story)\<close>.  The
  source returns the buffer that holds the bytes of the document; the model returns the
  story that was built.
\<close>

definition report_story :: "runtime \<Rightarrow> (string \<rightharpoonup> pyval) \<Rightarrow> exn + flowable list" where
  "report_story rt data =
     bind_exn (header rt data) (\<lambda>head.
     bind_exn (property_table rt data) (\<lambda>property.
     bind_exn (financial_table data) (\<lambda>financial.
     bind_exn (cashflow_table data) (\<lambda>cashflow.
     bind_exn (metrics_table data) (\<lambda>metrics.
     bind_exn (financing_table rt data) (\<lambda>financing.
       Inr (head
            @ [Paragraph ''PROPERTY SUMMARY'' ''SectionHeader'',
               TableF property,
               Spacer 1 15,
               Paragraph ''FINANCIAL SNAPSHOT'' ''SectionHeader'',
               TableF financial,
               Spacer 1 10,
               TableF cashflow,
               Spacer 1 20,
               Paragraph ''KEY INVESTMENT METRICS'' ''SectionHeader'',
               TableF metrics,
               Spacer 1 20,
               Paragraph ''QUICK RULES CHECK'' ''SectionHeader'',
               TableF (rules_table data),
               Spacer 1 20,
               TableF (verdict_table data),
               Spacer 1 30,
               Paragraph ''FINANCING DETAILS'' ''SectionHeader'',
               TableF financing,
               Spacer 1 30]
            @ footer)))))))"

definition generate_pdf :: "runtime \<Rightarrow> (string \<rightharpoonup> pyval) \<Rightarrow> exn + flowable list" where
  "generate_pdf rt data =
     bind_exn (report_story rt data) (\<lambda>story.
       case build_error rt story of
         Some e \<Rightarrow> Inl e
       | None \<Rightarrow> Inr story)"

subsection \<open>Reading a rendered table\<close>

text \<open>
  The PDF library applies the style commands in order to the cells of the range each one
  names, so the text colour of a cell is the colour of the last \<open>TEXTCOLOR\<close> command whose
  range holds the cell, and the library's default when there is none.
\<close>

definition resolve :: "nat \<Rightarrow> int \<Rightarrow> int" where
  "resolve n i = (if i < 0 then i + int n else i)"

definition in_range :: "table \<Rightarrow> cellpos \<Rightarrow> cellpos \<Rightarrow> nat \<times> nat \<Rightarrow> bool" where
  "in_range t start stop pos =
     (let nrows = length (cells t);
          ncols = (case cells t of [] \<Rightarrow> 0 | row # _ \<Rightarrow> length row)
      in resolve ncols (fst start) \<le> int (fst pos) \<and> int (fst pos) \<le> resolve ncols (fst stop)
         \<and> resolve nrows (snd start) \<le> int (snd pos) \<and> int (snd pos) \<le> resolve nrows (snd stop))"

fun text_colors :: "table \<Rightarrow> nat \<times> nat \<Rightarrow> cmd list \<Rightarrow> color list" where
  "text_colors t pos [] = []"
| "text_colors t pos (TEXTCOLOR start stop c # cmds) =
     (if in_range t start stop pos then c # text_colors t pos cmds else text_colors t pos cmds)"
| "text_colors t pos (_ # cmds) = text_colors t pos cmds"

definition text_color :: "table \<Rightarrow> nat \<times> nat \<Rightarrow> color option" where
  "text_color t pos =
     (case rev (text_colors t pos (style t)) of [] \<Rightarrow> None | c # _ \<Rightarrow> Some c)"

definition cell :: "table \<Rightarrow> nat \<times> nat \<Rightarrow> pyval" where
  "cell t pos = cells t ! snd pos ! fst pos"

text \<open>
  The colour that the loop over the metric rows gives to a status label, and the colour that
  the loop over the rule rows gives to a result label.
\<close>

definition status_tint :: "pyval \<Rightarrow> color" where
  "status_tint status =
     (if status \<in> set [PStr ''GOOD'', PStr ''STRONG'', PStr ''PASS''] then SUCCESS
      else if status \<in> set [PStr ''AVERAGE'', PStr ''MARGINAL''] then WARNING
      else DANGER)"

definition result_tint :: "pyval \<Rightarrow> color" where
  "result_tint result =
     (if result \<in> set [PStr ''PASS'', PStr ''YES''] then SUCCESS
      else if result = PStr ''REVIEW'' then WARNING
      else DANGER)"

text \<open>All colours that a table's style commands mention.\<close>

fun cmd_colors :: "cmd \<Rightarrow> color list" where
  "cmd_colors (TEXTCOLOR _ _ c) = [c]"
| "cmd_colors (BACKGROUND _ _ c) = [c]"
| "cmd_colors (LINEBELOW _ _ _ c) = [c]"
| "cmd_colors (GRID _ _ _ c) = [c]"
| "cmd_colors _ = []"

section \<open>The download route\<close>

text \<open>\<open>s.replace(old, new)\<close> for a pattern \<open>old\<close> of one character.\<close>

definition replace :: "char \<Rightarrow> string \<Rightarrow> string \<Rightarrow> string" where
  "replace old new s = concat (map (\<lambda>c. if c = old then new else [c]) s)"

text \<open>Calling \<open>.replace\<close> on an object that is not a string raises \<open>AttributeError\<close>.\<close>

fun the_str :: "pyval \<Rightarrow> exn + string" where
  "the_str (PStr s) = Inr s"
| "the_str _ = Inl AttributeError"

definition download_safe_address :: "string \<Rightarrow> string" where
  "download_safe_address property_address =
     take 30 (replace (CHR ''.'') '''' (replace (CHR '','') '''' (replace (CHR '' '') ''_'' property_address)))"

text \<open>
  The response of \<open>/api/generate-report\<close>: the PDF under its file name, or the JSON error
  with status 500 that the handler returns for any exception.
\<close>

datatype response =
    PdfResponse string "flowable list"
  | ErrorResponse nat exn

definition generate_report :: "runtime \<Rightarrow> (string \<rightharpoonup> pyval) \<Rightarrow> response" where
  "generate_report rt data =
     (case bind_exn (generate_pdf rt data) (\<lambda>pdf.
           bind_exn (the_str (getd data ''propertyAddress'' (PStr ''Investment_Property''))) (\<lambda>property_address.
             Inr (PdfResponse (''Investment_Analysis_'' @ download_safe_address property_address @ ''.pdf'') pdf)))
      of Inl e \<Rightarrow> ErrorResponse 500 e
       | Inr r \<Rightarrow> r)"

section \<open>Sending the report by mail\<close>

text \<open>
  The module-level mail settings, read from the environment when the module is loaded.
\<close>

record mail_config =
  EMAIL_HOST :: string
  EMAIL_PORT :: int
  EMAIL_USER :: string
  EMAIL_PASSWORD :: string
  EMAIL_FROM :: string

record message =
  msg_from :: string
  msg_to :: pyval
  msg_subject :: string
  msg_body :: string
  attachment_filename :: string
  attachment :: "flowable list"

text \<open>
  The calls made on the SMTP client, and what the program does that can be observed from
  outside: lines printed and SMTP calls.  The mail server is a parameter: for each call it
  says whether the call raises, and with which message.
\<close>

datatype smtp_call =
    Connect string int
  | StartTLS
  | Login string string
  | SendMessage message
  | Quit

datatype event = Print string | Smtp smtp_call

fun run_smtp :: "(smtp_call \<Rightarrow> string option) \<Rightarrow> smtp_call list \<Rightarrow> event list \<times> string option" where
  "run_smtp transport [] = ([], None)"
| "run_smtp transport (c # cs) =
     (case transport c of
        Some m \<Rightarrow> ([Smtp c], Some m)
      | None \<Rightarrow> (case run_smtp transport cs of (evs, r) \<Rightarrow> (Smtp c # evs, r)))"

definition unlines :: "string list \<Rightarrow> string" where
  "unlines ls = concat (map (\<lambda>l. l @ [CHR 0x0A]) ls)"

definition bullet :: string where
  "bullet = [CHR 0xE2, CHR 0x80, CHR 0xA2]"

definition email_body :: "string \<Rightarrow> string \<Rightarrow> string" where
  "email_body user_name property_address =
     unlines
       ['''',
        ''Dear '' @ user_name @ '','',
        '''',
        ''Thank you for using the Edmund Bogen Team Investment Property Analyzer!'',
        '''',
        ''Please find attached your comprehensive investment analysis for:'',
        property_address,
        '''',
        ''This report includes:'',
        bullet @ '' Property summary and financial snapshot'',
        bullet @ '' Key investment metrics (Cap Rate, Cash-on-Cash, DSCR, GRM)'',
        bullet @ '' Quick rules check (1%, 2%, 50%, 70% rules)'',
        bullet @ '' Cash flow analysis'',
        bullet @ '' Deal verdict and recommendation'',
        '''',
        ''If you have any questions about this analysis or would like to discuss investment ''
          @ ''opportunities in South Florida, please don'' @ [CHR 0x27] @ ''t hesitate to reach out.'',
        '''',
        ''Best regards,'',
        '''',
        ''The Edmund Bogen Team'',
        ''Douglas Elliman Real Estate'',
        ''www.bogenhomes.com'',
        '''',
        ''---'',
        ''From Palm Beach to Miami, we can help you find your next investment property.'']
     @ ''    ''"

definition email_safe_address :: "string \<Rightarrow> string" where
  "email_safe_address property_address =
     take 30 (replace (CHR '','') '''' (replace (CHR '' '') ''_'' property_address))"

definition send_email ::
  "mail_config \<Rightarrow> (smtp_call \<Rightarrow> string option) \<Rightarrow> runtime \<Rightarrow> (string \<rightharpoonup> pyval)
     \<Rightarrow> flowable list \<Rightarrow> event list \<times> (exn + bool)" where
  "send_email cfg transport rt data pdf_buffer =
     (let user_email = getd data ''userEmail'' PNone;
          user_name = getd data ''userName'' PNone;
          property_address = getd data ''propertyAddress'' (PStr ''Investment Property'')
      in if EMAIL_USER cfg = [] \<or> EMAIL_PASSWORD cfg = [] then
           ([Print (''Email would be sent to: '' @ py_str rt user_email),
             Print (''PDF generated for: '' @ py_str rt property_address)],
            Inr True)
         else
           (case the_str property_address of
              Inl e \<Rightarrow> ([], Inl e)
            | Inr address \<Rightarrow>
                (let msg =
                   \<lparr>msg_from = EMAIL_FROM cfg,
                    msg_to = user_email,
                    msg_subject = ''Your Investment Property Analysis - '' @ py_str rt property_address,
                    msg_body = email_body (py_str rt user_name) (py_str rt property_address),
                    attachment_filename =
                      ''Investment_Analysis_'' @ email_safe_address address @ ''.pdf'',
                    attachment = pdf_buffer\<rparr>
                 in (case run_smtp transport
                            [Connect (EMAIL_HOST cfg) (EMAIL_PORT cfg),
                             StartTLS,
                             Login (EMAIL_USER cfg) (EMAIL_PASSWORD cfg),
                             SendMessage msg,
                             Quit]
                     of (evs, None) \<Rightarrow>
                          (evs @ [Print (''Email sent successfully to '' @ py_str rt user_email)],
                           Inr True)
                      | (evs, Some m) \<Rightarrow>
                          (evs @ [Print (''Error sending email: '' @ m)],
                           Inl (TransportError m))))))"

section \<open>Fields that the report reads as numbers\<close>

text \<open>
  The keys whose values \<open>generate_pdf\<close> compares, multiplies or formats itself, and the keys
  whose values it only hands to \<open>format_currency\<close> or \<open>format_percent\<close>, which accept \<open>None\<close>.
  The objects that are numbers are \<open>bool\<close>, \<open>float\<close>, and \<open>int\<close>, here with a magnitude that
  stays within the range of a float after the multiplications of the report.
\<close>

definition numeric_fields :: "string list" where
  "numeric_fields =
     [''sqft'', ''grossRentMonthly'', ''vacancyRate'', ''totalExpensesMonthly'',
      ''monthlyPayment'', ''monthlyCashFlow'', ''capRate'', ''cashOnCash'', ''dscr'', ''grm'',
      ''onePercentRule'', ''downPaymentPercent'']"

definition formatted_fields :: "string list" where
  "formatted_fields =
     [''purchasePrice'', ''downPayment'', ''closingCosts'', ''otherIncomeMonthly'',
      ''rehabCosts'', ''effectiveIncomeMonthly'', ''loanAmount'', ''totalCashNeeded'',
      ''noiMonthly'', ''annualCashFlow'', ''interestRate'', ''annualDebtService'']"

definition number_below :: "int \<Rightarrow> pyval \<Rightarrow> bool" where
  "number_below B v =
     (case as_int v of
        Some n \<Rightarrow> \<bar>n\<bar> < B
      | None \<Rightarrow> (case as_float v of Some f \<Rightarrow> True | None \<Rightarrow> False))"

definition is_number :: "pyval \<Rightarrow> bool" where
  "is_number v = number_below (2 ^ 500) v"

definition numbers_where_read :: "(string \<rightharpoonup> pyval) \<Rightarrow> bool" where
  "numbers_where_read data =
     (list_all (\<lambda>k. case data k of None \<Rightarrow> True | Some v \<Rightarrow> is_number v) numeric_fields
      \<and> list_all (\<lambda>k. case data k of None \<Rightarrow> True | Some v \<Rightarrow> v = PNone \<or> is_number v)
            formatted_fields)"


section \<open>The defaults of the report's fields\<close>



section \<open>Sample inputs\<close>

text \<open>
  A runtime for the examples below.  None of the examples prints a float or a container,
  so the three text functions are never called there and are placeholders.  The library
  accepts the paragraph \<open>Prepared for\<close> of each example, whose user name is the default or
  \<open>None\<close>, and builds each story without an exception; these two functions are constant.
\<close>

definition sample_runtime :: runtime where
  "sample_runtime =
     \<lparr>today = ''January 01, 2025'',
      str_float = (\<lambda>x. ''<float>''),
      str_container = (\<lambda>v. ''<container>''),
      grouped_float = (\<lambda>x. ''<float>''),
      accepts_markup = (\<lambda>text. True),
      build_error = (\<lambda>story. None)\<rparr>"

text \<open>The end-to-end input of the specification; a decimal number of a request is a double.\<close>

definition spec_example :: "string \<rightharpoonup> pyval" where
  "spec_example = map_of
     [(''purchasePrice'', PInt 300000),
      (''grossRentMonthly'', PInt 3000),
      (''vacancyRate'', PFloat (double (5 / 100))),
      (''capRate'', PFloat (double (85 / 1000))),
      (''cashOnCash'', PFloat (double (11 / 100))),
      (''dscr'', PFloat (double (13 / 10))),
      (''grm'', PFloat (double (105 / 10))),
      (''onePercentRule'', PFloat (double (1 / 100))),
      (''monthlyCashFlow'', PInt 250),
      (''annualCashFlow'', PInt 3000),
      (''rule1Pass'', PBool True),
      (''rule2Pass'', PBool False),
      (''rule50Pass'', PBool True),
      (''rule70Pass'', PBool True),
      (''cashFlowPositivePass'', PBool True),
      (''verdict'', PStr ''STRONG BUY'')]"

text \<open>
  A request whose metrics sit on the lower thresholds, as the JSON numbers \<open>0.06\<close>, \<open>1.0\<close>
  and \<open>0.01\<close>, and a request with nulls in fields that are only formatted.
\<close>

definition boundary_example :: "string \<rightharpoonup> pyval" where
  "boundary_example = map_of
     [(''capRate'', PFloat (double (6 / 100))),
      (''cashOnCash'', PFloat (double (6 / 100))),
      (''dscr'', PFloat (double 1)),
      (''grm'', PInt 12),
      (''onePercentRule'', PFloat (double (1 / 100)))]"


text \<open>Mail settings with credentials, and a request that holds only a property address.\<close>

definition sample_config :: mail_config where
  "sample_config =
     \<lparr>EMAIL_HOST = ''smtp.gmail.com'', EMAIL_PORT = 587, EMAIL_USER = ''user'',
      EMAIL_PASSWORD = ''password'', EMAIL_FROM = ''Edmund Bogen Team <info@bogenhomes.com>''\<rparr>"

definition address_example :: "string \<rightharpoonup> pyval" where
  "address_example = map_of [(''propertyAddress'', PStr ''123 Main St., Apt #4'')]"

section \<open>The float literals of the source and of the examples\<close>

text \<open>
  The values of the doubles that Python reads the decimal numbers as.  The double \<open>0.06\<close>
  lies below 6/100, the doubles \<open>0.08\<close>, \<open>0.10\<close> and \<open>0.01\<close> lie above their decimals, and
  \<open>1.25\<close> and \<open>1.0\<close> are exact.
\<close>

lemma double_values:
  "double (8 / 100) = 5764607523034235 / 72057594037927936"
  "double (6 / 100) = 1080863910568919 / 18014398509481984"
  "double (10 / 100) = 3602879701896397 / 36028797018963968"
  "double (125 / 100) = 5 / 4"
  "double 1 = 1"
  "double (1 / 100) = 5764607523034235 / 576460752303423488"
  "double (85 / 1000) = 6124895493223875 / 72057594037927936"
  "double (11 / 100) = 7926335344172073 / 72057594037927936"
  "double (13 / 10) = 5854679515581645 / 4503599627370496"
  "double (105 / 10) = 21 / 2"
  "double (5 / 100) = 3602879701896397 / 72057594037927936"
  by code_simp+

lemma double_order:
  "double (6 / 100) < 6 / 100"
  "8 / 100 < double (8 / 100)"
  "10 / 100 < double (10 / 100)"
  "1 / 100 < double (1 / 100)"
  by code_simp+

text \<open>
  The vacancy loss \<open>rent * rate * -1\<close>: with the default rent 0 and the rate 0.05 it is the
  float \<open>-0.0\<close>, printed as \<open>$-0\<close>; with the rent 3000 it is \<open>-150.0\<close>.
\<close>

lemma vacancy_loss_examples:
  "bind_exn (py_mul (PInt 0) (PFloat (double (5 / 100)))) (\<lambda>loss.
     bind_exn (py_mul loss (PInt (- 1))) format_currency) = Inr ''$-0''"
  "bind_exn (py_mul (PInt 3000) (PFloat (double (5 / 100)))) (\<lambda>loss.
     bind_exn (py_mul loss (PInt (- 1))) format_currency) = Inr ''$-150''"
  "bind_exn (py_mul (PInt 0) (PInt 0)) (\<lambda>loss.
     bind_exn (py_mul loss (PInt (- 1))) format_currency) = Inr ''$0''"
  by code_simp+

section \<open>Properties of the formatting helpers\<close>










section \<open>Properties of the status classification\<close>

text \<open>
  Claim C6, as amended.  For a numeric value, \<open>get_status_color\<close> returns the top tier iff the
  value clears the good threshold in the favourable direction (\<open>>=\<close> when higher is better,
  \<open><=\<close> when lower is better), the middle tier iff it does not and a non-zero warn threshold
  is supplied and cleared, and the bottom tier otherwise; without a warn threshold the middle
  tier is unreachable.  The examples of the specification are included.
\<close>

theorem get_status_color_tiers:
  "(as_num v = Some x \<longrightarrow>
      get_status_color v g w h
        = Inr (if (if h then x \<ge> g else x \<le> g) then SUCCESS
               else if (case w of None \<Rightarrow> False
                        | Some t \<Rightarrow> t \<noteq> 0 \<and> (if h then x \<ge> t else x \<le> t)) then WARNING
               else DANGER))
   \<and> get_status_color v g None h \<noteq> Inr WARNING
   \<and> get_status_color (PFloat (8 / 100)) (8 / 100) (Some (6 / 100)) True = Inr SUCCESS
   \<and> get_status_color (PFloat (7 / 100)) (8 / 100) (Some (6 / 100)) True = Inr WARNING
   \<and> get_status_color (PFloat (5 / 100)) (8 / 100) (Some (6 / 100)) True = Inr DANGER
   \<and> get_status_color (PInt 12) 12 None False = Inr SUCCESS
   \<and> get_status_color (PInt 13) 12 None False = Inr DANGER"
proof (intro conjI impI)
  assume "as_num v = Some x"
  then show "get_status_color v g w h
        = Inr (if (if h then x \<ge> g else x \<le> g) then SUCCESS
               else if (case w of None \<Rightarrow> False
                        | Some t \<Rightarrow> t \<noteq> 0 \<and> (if h then x \<ge> t else x \<le> t)) then WARNING
               else DANGER)"
    by (cases w) (auto simp: get_status_color_def py_ge_def py_le_def bind_exn_def)
next
  show "get_status_color v g None h \<noteq> Inr WARNING"
    by (auto simp: get_status_color_def py_ge_def py_le_def bind_exn_def split: option.splits)
qed (simp_all add: get_status_color_def py_ge_def py_le_def bind_exn_def)

theorem get_status_color_tiers_witness:
  "as_num (PFloat (65 / 1000)) = Some (65 / 1000)
   \<and> get_status_color (PFloat (65 / 1000)) (10 / 100) (Some (6 / 100)) True = Inr WARNING"
  using get_status_color_tiers [of "PFloat (65 / 1000)" "65 / 1000" "10 / 100" "Some (6 / 100)" True]
  by simp

text \<open>
  Claim C6 as stated fails for a warn threshold of zero: the value 3 misses the good
  threshold 5 and clears the supplied warn threshold 0, yet the result is not the middle tier.
\<close>

theorem get_status_color_zero_warn_counterexample:
  "as_num (PInt 3) = Some 3 \<and> \<not> (3::rat) \<ge> 5 \<and> (3::rat) \<ge> 0
   \<and> get_status_color (PInt 3) 5 (Some 0) True \<noteq> Inr WARNING"
  by (simp add: get_status_color_def py_ge_def bind_exn_def)

text \<open>
  The examples of the specification once more, each decimal read as the double it is in
  Python.
\<close>

lemma get_status_color_on_doubles:
  "get_status_color (PFloat (double (8 / 100))) (double (8 / 100)) (Some (double (6 / 100))) True
     = Inr SUCCESS"
  "get_status_color (PFloat (double (7 / 100))) (double (8 / 100)) (Some (double (6 / 100))) True
     = Inr WARNING"
  "get_status_color (PFloat (double (5 / 100))) (double (8 / 100)) (Some (double (6 / 100))) True
     = Inr DANGER"
  "get_status_color (PFloat (double (6 / 100))) (double (8 / 100)) (Some (double (6 / 100))) True
     = Inr WARNING"
  by code_simp+

text \<open>
  Claim C10.  A warn threshold equal to zero is treated as absent:
  \<open>get_status_color(0.5, 1, 0, higher_is_better=True)\<close> is the bottom tier, a zero warn
  threshold gives the result of no warn threshold and never the middle tier, and a
  middle-tier result requires a non-zero warn threshold.
\<close>

theorem zero_warn_threshold_absent:
  "get_status_color (PFloat (1 / 2)) 1 (Some 0) True = Inr DANGER
   \<and> get_status_color v g (Some 0) h = get_status_color v g None h
   \<and> get_status_color v g (Some 0) h \<noteq> Inr WARNING
   \<and> (get_status_color v g w h = Inr WARNING \<longrightarrow> (\<exists>t. w = Some t \<and> t \<noteq> 0))"
proof (intro conjI impI)
  show "get_status_color (PFloat (1 / 2)) 1 (Some 0) True = Inr DANGER"
    by (simp add: get_status_color_def py_ge_def bind_exn_def)
  show "get_status_color v g (Some 0) h = get_status_color v g None h"
    by (auto simp: get_status_color_def bind_exn_def split: sum.splits)
  show "get_status_color v g (Some 0) h \<noteq> Inr WARNING"
    by (auto simp: get_status_color_def py_ge_def py_le_def bind_exn_def split: option.splits)
next
  assume "get_status_color v g w h = Inr WARNING"
  then show "\<exists>t. w = Some t \<and> t \<noteq> 0"
    by (cases w) (auto simp: get_status_color_def py_ge_def py_le_def bind_exn_def
        split: option.splits if_splits)
qed

theorem zero_warn_threshold_absent_witness:
  "get_status_color (PFloat (7 / 100)) (8 / 100) (Some (6 / 100)) True = Inr WARNING
   \<and> (\<exists>t::rat. Some (6 / 100) = Some t \<and> t \<noteq> 0)"
proof -
  have w: "get_status_color (PFloat (7 / 100)) (8 / 100) (Some (6 / 100)) True = Inr WARNING"
    by (simp add: get_status_color_def py_ge_def bind_exn_def)
  show ?thesis
    using zero_warn_threshold_absent [of "PFloat (7 / 100)" "8 / 100" True "Some (6 / 100)"] w
    by simp
qed

section \<open>Numbers never raise\<close>

text \<open>
  Conversions, products, differences and formats of numbers within the range of
  \<open>is_number\<close> return a result.
\<close>

lemma bit_length_lower: "0 < m \<Longrightarrow> 2 ^ (bit_length m - 1) \<le> m"
proof (induction m rule: bit_length.induct)
  case (1 n)
  show ?case
  proof (cases "n div 2 \<le> 0")
    case True
    then have "bit_length (n div 2) = 0" by (simp add: bit_length.simps)
    then have "bit_length n = 1" using "1.prems" by (subst bit_length.simps) simp
    then show ?thesis using "1.prems" by simp
  next
    case False
    then have pos: "0 < n div 2" by simp
    then have ih: "2 ^ (bit_length (n div 2) - 1) \<le> n div 2" using "1.IH" "1.prems" by simp
    have bl: "bit_length n = Suc (bit_length (n div 2))"
      using "1.prems" by (subst bit_length.simps) simp
    have "0 < bit_length (n div 2)" using pos by (subst bit_length.simps) simp
    then have "(2::int) ^ (bit_length n - 1) = 2 * 2 ^ (bit_length (n div 2) - 1)"
      using bl by (cases "bit_length (n div 2)") simp_all
    also have "\<dots> \<le> 2 * (n div 2)" using ih by simp
    also have "\<dots> \<le> n" by linarith
    finally show ?thesis .
  qed
qed

lemma float_of_int_total:
  assumes "\<bar>n\<bar> < 2 ^ 1023"
  shows "\<exists>x. float_of_int n = Inr x"
proof -
  define m where "m = \<bar>n\<bar>"
  define e where "e = bit_length m - 53"
  define q where "q = m div 2 ^ e"
  define r where "r = m mod 2 ^ e"
  define q' where "q' = (if 2 * r > 2 ^ e \<or> (2 * r = 2 ^ e \<and> odd q) then q + 1 else q)"
  have m0: "0 \<le> m" by (simp add: m_def)
  have pe: "(2::int) ^ e \<le> max 1 m"
  proof (cases "e = 0")
    case True
    then show ?thesis by simp
  next
    case False
    then have "0 < bit_length m" by (simp add: e_def)
    then have "0 < m" by (subst (asm) bit_length.simps) (simp split: if_splits)
    then have "2 ^ (bit_length m - 1) \<le> m" by (rule bit_length_lower)
    moreover have "(2::int) ^ e \<le> 2 ^ (bit_length m - 1)"
      by (rule power_increasing) (simp_all add: e_def)
    ultimately show ?thesis by linarith
  qed
  have "q * 2 ^ e \<le> m" unfolding q_def using m0
    by (metis mult.commute mult_div_mod_eq le_add_same_cancel1 pos_mod_sign zero_less_numeral zero_less_power)
  moreover have "q' \<le> q + 1" by (simp add: q'_def)
  then have "q' * 2 ^ e \<le> (q + 1) * 2 ^ e" by (rule mult_right_mono) simp
  ultimately have "q' * 2 ^ e \<le> m + 2 ^ e" by (simp add: algebra_simps)
  also have "\<dots> \<le> m + max 1 m" using pe by simp
  also have "\<dots> < 2 ^ 1024" using assms by (simp add: m_def)
  finally have "\<not> 2 ^ 1024 \<le> q' * 2 ^ e" by simp
  then show ?thesis
    unfolding float_of_int_def Let_def m_def [symmetric] e_def [symmetric] q_def [symmetric]
      r_def [symmetric] q'_def [symmetric]
    by simp
qed

lemma number_cases:
  assumes "number_below B v"
  obtains n where "as_int v = Some n" "\<bar>n\<bar> < B"
  | f where "as_int v = None" "as_float v = Some f"
  using assms by (cases v) (auto simp: number_below_def)

lemma number_below_mono: "number_below A v \<Longrightarrow> A \<le> B \<Longrightarrow> number_below B v"
  by (cases v) (auto simp: number_below_def)

lemma number_below_float [simp]: "number_below B (PFloat x)" "number_below B PNegZero"
  by (simp_all add: number_below_def)

lemma number_below_float_result [simp]: "number_below B (float_result s q)"
  "number_below B (float_difference a b)"
  by (simp_all add: float_result_def float_difference_def Let_def split: prod.splits)

lemma number_below_int [simp]: "number_below B (PInt n) = (\<bar>n\<bar> < B)"
  by (simp add: number_below_def)

lemma py_format_f_total:
  assumes "number_below (2 ^ 1023) v"
  shows "\<exists>s. py_format_f g p v = Inr s"
proof (cases v)
  case (PInt n)
  then have "\<bar>n\<bar> < 2 ^ 1023" using assms by simp
  then obtain x where "float_of_int n = Inr x" using float_of_int_total by blast
  then show ?thesis using PInt by (simp add: bind_exn_def)
qed (use assms in \<open>auto simp: number_below_def\<close>)

lemma format_currency_total:
  assumes "number_below (2 ^ 1023) v"
  shows "\<exists>s. format_currency v = Inr s"
proof -
  obtain s where "py_format_f True 0 v = Inr s" using py_format_f_total [OF assms] by blast
  then show ?thesis by (simp add: format_currency_def bind_exn_def)
qed

lemma py_format_grouped_total:
  assumes "number_below B v"
  shows "\<exists>s. py_format_grouped rt v = Inr s"
  using assms by (cases v) (auto simp: number_below_def)

lemma py_mul_number:
  assumes a: "number_below A a" and b: "number_below B b"
    and A: "A \<le> 2 ^ 1023" and B: "B \<le> 2 ^ 1023"
  shows "\<exists>v. py_mul a b = Inr v \<and> number_below (A * B) v"
proof -
  from a show ?thesis
  proof (cases rule: number_cases)
    case (1 m)
    from b show ?thesis
    proof (cases rule: number_cases)
      case n: (1 n)
      have "\<bar>m * n\<bar> = \<bar>m\<bar> * \<bar>n\<bar>" by (simp add: abs_mult)
      also have "\<dots> < A * B"
        using 1(2) n(2) by (intro mult_strict_mono) auto
      finally show ?thesis using 1(1) n(1) by (simp add: py_mul_def)
    next
      case f: (2 f)
      have "\<bar>m\<bar> < 2 ^ 1023" using 1(2) A by linarith
      then obtain x where "float_of_int m = Inr x" using float_of_int_total by blast
      then show ?thesis using 1(1) f by (cases f) (simp add: py_mul_def bind_exn_def)
    qed
  next
    case (2 f)
    from b show ?thesis
    proof (cases rule: number_cases)
      case n: (1 n)
      have "\<bar>n\<bar> < 2 ^ 1023" using n(2) B by linarith
      then obtain y where "float_of_int n = Inr y" using float_of_int_total by blast
      then show ?thesis using 2 n(1) by (cases f) (simp add: py_mul_def bind_exn_def)
    next
      case g: (2 g)
      then show ?thesis using 2 by (cases f; cases g) (simp add: py_mul_def)
    qed
  qed
qed

lemma py_sub_number:
  assumes a: "number_below A a" and b: "number_below B b"
    and A: "A \<le> 2 ^ 1023" and B: "B \<le> 2 ^ 1023"
  shows "\<exists>v. py_sub a b = Inr v \<and> number_below (A + B) v"
proof -
  from a show ?thesis
  proof (cases rule: number_cases)
    case (1 m)
    from b show ?thesis
    proof (cases rule: number_cases)
      case n: (1 n)
      have "\<bar>m - n\<bar> < A + B" using 1(2) n(2) by linarith
      then show ?thesis using 1(1) n(1) by (simp add: py_sub_def)
    next
      case f: (2 f)
      have "\<bar>m\<bar> < 2 ^ 1023" using 1(2) A by linarith
      then obtain x where "float_of_int m = Inr x" using float_of_int_total by blast
      then show ?thesis using 1(1) f by (simp add: py_sub_def bind_exn_def)
    qed
  next
    case (2 f)
    from b show ?thesis
    proof (cases rule: number_cases)
      case n: (1 n)
      have "\<bar>n\<bar> < 2 ^ 1023" using n(2) B by linarith
      then obtain y where "float_of_int n = Inr y" using float_of_int_total by blast
      then show ?thesis using 2 n(1) by (simp add: py_sub_def bind_exn_def)
    next
      case g: (2 g)
      then show ?thesis using 2 by (simp add: py_sub_def)
    qed
  qed
qed

lemma sequence_total:
  "(\<And>m. m \<in> set ms \<Longrightarrow> \<exists>x. m = Inr x) \<Longrightarrow> \<exists>xs. sequence ms = Inr xs"
proof (induction ms)
  case Nil
  then show ?case by simp
next
  case (Cons m ms)
  obtain x where "m = Inr x" using Cons.prems [of m] by auto
  moreover obtain xs where "sequence ms = Inr xs" using Cons.IH Cons.prems by auto
  ultimately show ?case by simp
qed

lemma field_number:
  assumes "numbers_where_read data" and "k \<in> set numeric_fields"
  shows "is_number (getd data k (PInt 0))"
proof -
  have "case data k of None \<Rightarrow> True | Some v \<Rightarrow> is_number v"
    using assms by (simp add: numbers_where_read_def list_all_iff)
  then show ?thesis
    by (cases "data k") (simp_all add: getd_def is_number_def)
qed

lemma field_null_or_number:
  assumes "numbers_where_read data" and "k \<in> set formatted_fields"
  shows "getd data k (PInt 0) = PNone \<or> is_number (getd data k (PInt 0))"
proof -
  have "case data k of None \<Rightarrow> True | Some v \<Rightarrow> v = PNone \<or> is_number v"
    using assms by (simp add: numbers_where_read_def list_all_iff)
  then show ?thesis
    by (cases "data k") (auto simp: getd_def is_number_def)
qed

lemma is_number_1023:
  assumes "is_number v"
  shows "number_below (2 ^ 1023) v"
proof -
  have "number_below (2 ^ 500) v" using assms by (simp only: is_number_def)
  then show ?thesis by (rule number_below_mono) simp
qed

lemma format_currency_field:
  assumes "numbers_where_read data" and "k \<in> set numeric_fields"
  shows "\<exists>s. format_currency (getd data k (PInt 0)) = Inr s"
  using field_number [OF assms] by (intro format_currency_total is_number_1023)

lemma format_currency_formatted:
  assumes "numbers_where_read data" and "k \<in> set formatted_fields"
  shows "\<exists>s. format_currency (getd data k (PInt 0)) = Inr s"
  using field_null_or_number [OF assms]
proof
  assume "getd data k (PInt 0) = PNone"
  then show ?thesis by (simp add: format_currency_def)
next
  assume "is_number (getd data k (PInt 0))"
  then show ?thesis by (intro format_currency_total is_number_1023)
qed

lemma format_currency_any:
  assumes "numbers_where_read data" and "k \<in> set (numeric_fields @ formatted_fields)"
  shows "\<exists>s. format_currency (getd data k (PInt 0)) = Inr s"
proof (cases "k \<in> set numeric_fields")
  case True
  with assms(1) show ?thesis by (rule format_currency_field)
next
  case False
  then have "k \<in> set formatted_fields" using assms(2) by simp
  with assms(1) show ?thesis by (rule format_currency_formatted)
qed

lemma negated_currency_total:
  assumes "is_number v"
  shows "\<exists>s. bind_exn (py_mul v (PInt (- 1))) format_currency = Inr s"
proof -
  have "number_below 2 (PInt (- 1))" by simp
  with assms obtain w where w: "py_mul v (PInt (- 1)) = Inr w" "number_below (2 ^ 500 * 2) w"
    unfolding is_number_def using py_mul_number [of "2 ^ 500" v 2 "PInt (- 1)"] by auto
  have "number_below (2 ^ 1023) w" using w(2) by (rule number_below_mono) simp
  then obtain s where "format_currency w = Inr s" using format_currency_total by blast
  then show ?thesis using w(1) by (simp add: bind_exn_def)
qed

lemma vacancy_loss_total:
  assumes "is_number a" and "is_number b"
  shows "\<exists>s. bind_exn (py_mul a b) (\<lambda>loss. bind_exn (py_mul loss (PInt (- 1))) format_currency) = Inr s"
proof -
  obtain l where l: "py_mul a b = Inr l" "number_below (2 ^ 500 * 2 ^ 500) l"
    using assms unfolding is_number_def using py_mul_number [of "2 ^ 500" a "2 ^ 500" b] by auto
  have "number_below 2 (PInt (- 1))" by simp
  with l(2) obtain w where w: "py_mul l (PInt (- 1)) = Inr w" "number_below (2 ^ 500 * 2 ^ 500 * 2) w"
    using py_mul_number [of "2 ^ 500 * 2 ^ 500" l 2 "PInt (- 1)"] by auto
  have "number_below (2 ^ 1023) w" using w(2) by (rule number_below_mono) simp
  then obtain s where "format_currency w = Inr s" using format_currency_total by blast
  then show ?thesis using l(1) w(1) by (simp add: bind_exn_def)
qed

lemma times_100_total:
  assumes "number_below (2 ^ 501) v"
  shows "\<exists>s. bind_exn (py_mul v (PInt 100)) (\<lambda>w. bind_exn (py_format_f g p w) (\<lambda>s. Inr (s @ sfx))) = Inr s"
proof -
  have "number_below 128 (PInt 100)" by simp
  with assms obtain w where w: "py_mul v (PInt 100) = Inr w" "number_below (2 ^ 501 * 128) w"
    using py_mul_number [of "2 ^ 501" v 128 "PInt 100"] by auto
  have "number_below (2 ^ 1023) w" using w(2) by (rule number_below_mono) simp
  then obtain s where "py_format_f g p w = Inr s" using py_format_f_total by blast
  then show ?thesis using w(1) by (simp add: bind_exn_def)
qed

lemma format_percent_total:
  assumes "is_number v"
  shows "\<exists>s. format_percent v = Inr s"
proof -
  have "number_below (2 ^ 501) v" using assms unfolding is_number_def
    by (rule number_below_mono) simp
  then show ?thesis
    using times_100_total [of v False 2 "''%''"] by (auto simp: format_percent_def)
qed

lemma format_percent_formatted:
  assumes "numbers_where_read data" and "k \<in> set formatted_fields"
  shows "\<exists>s. format_percent (getd data k (PInt 0)) = Inr s"
  using field_null_or_number [OF assms]
proof
  assume "getd data k (PInt 0) = PNone"
  then show ?thesis by (simp add: format_percent_def)
next
  assume "is_number (getd data k (PInt 0))"
  then show ?thesis by (rule format_percent_total)
qed

lemma ltv_total:
  assumes "is_number v"
  shows "\<exists>s. bind_exn (py_sub (PInt 1) v) (\<lambda>d.
          bind_exn (py_mul d (PInt 100)) (\<lambda>p.
            bind_exn (py_format_f False 0 p) (\<lambda>s. Inr (s @ ''%'')))) = Inr s"
proof -
  have "number_below 2 (PInt 1)" by simp
  with assms obtain d where d: "py_sub (PInt 1) v = Inr d" "number_below (2 + 2 ^ 500) d"
    unfolding is_number_def using py_sub_number [of 2 "PInt 1" "2 ^ 500" v] by auto
  have "number_below (2 ^ 501) d" using d(2) by (rule number_below_mono) simp
  then show ?thesis using times_100_total [of d False 0 "''%''"] d(1) by (simp add: bind_exn_def)
qed

lemma as_num_number:
  assumes "number_below B v"
  shows "\<exists>x. as_num v = Some x"
  using assms by (cases v) (auto simp: number_below_def)

lemma three_tier_total:
  assumes "is_number v"
  shows "\<exists>s. three_tier v g w a b c = Inr s"
proof -
  obtain x where "as_num v = Some x" using assms as_num_number unfolding is_number_def by blast
  then show ?thesis by (simp add: three_tier_def py_ge_def bind_exn_def)
qed

lemma sequence_Nil_total: "\<exists>xs. sequence [] = (Inr xs :: exn + 'a list)"
  by simp

lemma sequence_Cons_total:
  "\<exists>x. m = Inr x \<Longrightarrow> \<exists>xs. sequence ms = Inr xs \<Longrightarrow> \<exists>ys. sequence (m # ms) = Inr ys"
  by auto

lemma bind_sequence_total:
  "\<exists>xs. sequence ms = Inr xs \<Longrightarrow> \<exists>y. bind_exn (sequence ms) (\<lambda>v. Inr (f v)) = Inr y"
  by (auto simp: bind_exn_def)

lemma Inr_total: "\<exists>y. Inr x = Inr y"
  by simp

lemma is_number_501:
  assumes "is_number v"
  shows "number_below (2 ^ 501) v"
proof -
  have "number_below (2 ^ 500) v" using assms by (simp only: is_number_def)
  then show ?thesis by (rule number_below_mono) simp
qed

lemma compare_label_total:
  assumes "is_number v"
  shows "\<exists>s. bind_exn (py_le v c) (\<lambda>g. Inr (f g)) = Inr s"
    and "\<exists>s. bind_exn (py_ge v c) (\<lambda>g. Inr (f g)) = Inr s"
    and "\<exists>s. bind_exn (py_gt v c) (\<lambda>g. Inr (f g)) = Inr s"
proof -
  obtain x where "as_num v = Some x" using assms as_num_number unfolding is_number_def by blast
  then show "\<exists>s. bind_exn (py_le v c) (\<lambda>g. Inr (f g)) = Inr s"
    and "\<exists>s. bind_exn (py_ge v c) (\<lambda>g. Inr (f g)) = Inr s"
    and "\<exists>s. bind_exn (py_gt v c) (\<lambda>g. Inr (f g)) = Inr s"
    by (simp_all add: py_le_def py_ge_def py_gt_def bind_exn_def)
qed

lemma property_table_total:
  assumes "numbers_where_read data"
  shows "\<exists>t. property_table rt data = Inr t"
proof -
  have "is_number (getd data ''sqft'' (PInt 0))"
    using assms by (rule field_number) (simp add: numeric_fields_def)
  then obtain s where "py_format_grouped rt (getd data ''sqft'' (PInt 0)) = Inr s"
    unfolding is_number_def using py_format_grouped_total by blast
  then show ?thesis by (simp add: property_table_def bind_exn_def)
qed

lemma financial_table_total:
  assumes "numbers_where_read data"
  shows "\<exists>t. financial_table data = Inr t"
  unfolding financial_table_def
  by (intro bind_sequence_total sequence_Cons_total sequence_Nil_total format_currency_any
      vacancy_loss_total negated_currency_total field_number assms)
    (simp_all add: numeric_fields_def formatted_fields_def)

lemma cashflow_table_total:
  assumes "numbers_where_read data"
  shows "\<exists>t. cashflow_table data = Inr t"
proof -
  have "is_number (getd data ''monthlyCashFlow'' (PInt 0))"
    using assms by (rule field_number) (simp add: numeric_fields_def)
  then have "\<exists>c. cf_color data = Inr c"
    unfolding cf_color_def by (rule compare_label_total(3))
  then obtain c where "cf_color data = Inr c" by blast
  moreover obtain m where "format_currency (getd data ''monthlyCashFlow'' (PInt 0)) = Inr m"
    using format_currency_field [OF assms, of "''monthlyCashFlow''"] by (auto simp: numeric_fields_def)
  moreover obtain a where "format_currency (getd data ''annualCashFlow'' (PInt 0)) = Inr a"
    using format_currency_formatted [OF assms, of "''annualCashFlow''"]
    by (auto simp: formatted_fields_def)
  ultimately show ?thesis by (simp add: cashflow_table_def bind_exn_def)
qed

lemma metrics_data_total:
  assumes "numbers_where_read data"
  shows "\<exists>rows. metrics_data data = Inr rows"
  unfolding metrics_data_def Let_def
  by (intro bind_sequence_total sequence_Cons_total sequence_Nil_total format_percent_total
      three_tier_total py_format_f_total is_number_1023 compare_label_total field_number assms)
    (simp_all add: numeric_fields_def)

lemma metrics_table_total:
  assumes "numbers_where_read data"
  shows "\<exists>t. metrics_table data = Inr t"
  using metrics_data_total [OF assms] by (auto simp: metrics_table_def bind_exn_def)

lemma financing_table_total:
  assumes "numbers_where_read data"
  shows "\<exists>t. financing_table rt data = Inr t"
  unfolding financing_table_def
  by (intro bind_sequence_total sequence_Cons_total sequence_Nil_total format_percent_formatted
      format_currency_any times_100_total ltv_total Inr_total is_number_501 field_number assms)
    (simp_all add: numeric_fields_def formatted_fields_def)

lemma report_story_total:
  assumes "numbers_where_read data" and "accepts_markup rt (prepared_for rt data)"
  shows "\<exists>story. report_story rt data = Inr story"
proof -
  obtain h where "header rt data = Inr h" using assms(2) by (simp add: header_def)
  moreover obtain p f c m g where "property_table rt data = Inr p" "financial_table data = Inr f"
    "cashflow_table data = Inr c" "metrics_table data = Inr m" "financing_table rt data = Inr g"
    using property_table_total [OF assms(1)] financial_table_total [OF assms(1)]
      cashflow_table_total [OF assms(1)] metrics_table_total [OF assms(1)]
      financing_table_total [OF assms(1)] by blast
  ultimately show ?thesis by (simp add: report_story_def bind_exn_def)
qed


lemma generate_pdf_total:
  assumes "numbers_where_read data"
  shows "\<exists>story. generate_pdf sample_runtime data = Inr story"
proof -
  have "accepts_markup sample_runtime (prepared_for sample_runtime data)"
    by (simp add: sample_runtime_def)
  then obtain story where "report_story sample_runtime data = Inr story"
    using report_story_total [OF assms] by blast
  moreover have "build_error sample_runtime story = None" by (simp add: sample_runtime_def)
  ultimately show ?thesis by (simp add: generate_pdf_def bind_exn_def)
qed

section \<open>Defaults\<close>











section \<open>The sections of a generated report\<close>

lemma generate_pdf_story:
  assumes "generate_pdf rt data = Inr story"
  shows "\<exists>c m. cashflow_table data = Inr c \<and> metrics_table data = Inr m
           \<and> story ! 12 = TableF c \<and> story ! 15 = TableF m
           \<and> story ! 18 = TableF (rules_table data) \<and> story ! 20 = TableF (verdict_table data)"
proof -
  have "report_story rt data = Inr story"
    using assms by (auto simp: generate_pdf_def bind_exn_def split: sum.splits option.splits)
  then show ?thesis
    by (auto simp: report_story_def bind_exn_def header_def nth_append split: sum.splits if_splits)
qed

lemma status_colors_Cons:
  "status_colors i (row # rows) = TEXTCOLOR (3, i) (3, i) (status_tint (row ! 3)) # status_colors (i + 1) rows"
  by (simp add: status_tint_def Let_def)

lemma result_colors_Cons:
  "result_colors i (row # rows) =
     TEXTCOLOR (1, i) (1, i) (result_tint (row ! 1)) # FONTNAME (1, i) (1, i) ''Helvetica-Bold''
       # result_colors (i + 1) rows"
  by (simp add: result_tint_def Let_def)

lemma sequence_Inr_nth:
  "sequence ms = Inr xs \<Longrightarrow> length xs = length ms \<and> (\<forall>i<length ms. ms ! i = Inr (xs ! i))"
proof (induction ms arbitrary: xs)
  case Nil
  then show ?case by simp
next
  case (Cons m ms)
  then obtain y ys where m: "m = Inr y" and ms: "sequence ms = Inr ys" and xs: "xs = y # ys"
    by (auto split: sum.splits)
  have ih: "length ys = length ms \<and> (\<forall>i<length ms. ms ! i = Inr (ys ! i))"
    using Cons.IH [OF ms] .
  show ?case
  proof (intro conjI allI impI)
    show "length xs = length (m # ms)" using ih xs by simp
  next
    fix i assume "i < length (m # ms)"
    then show "(m # ms) ! i = Inr (xs ! i)" using ih m xs by (cases i) simp_all
  qed
qed

lemma bind_Inr: "bind_exn m f = Inr y \<Longrightarrow> \<exists>x. m = Inr x \<and> f x = Inr y"
  by (cases m) (simp_all add: bind_exn_def)

lemma three_tier_Inr:
  assumes "three_tier v g w a b c = Inr s"
  shows "\<exists>x. as_num v = Some x \<and> s = (if x \<ge> g then a else if x \<ge> w then b else c)"
  using assms
  by (auto simp: three_tier_def py_ge_def bind_exn_def split: option.splits if_splits)

lemma two_tier_Inr:
  "bind_exn (py_le v g) (\<lambda>t. Inr (if t then a else b)) = Inr s
     \<Longrightarrow> \<exists>x. as_num v = Some x \<and> s = (if x \<le> g then a else b)"
  "bind_exn (py_ge v g) (\<lambda>t. Inr (if t then a else b)) = Inr s
     \<Longrightarrow> \<exists>x. as_num v = Some x \<and> s = (if x \<ge> g then a else b)"
  by (auto simp: py_le_def py_ge_def bind_exn_def split: option.splits if_splits)

lemma metrics_data_Inr:
  assumes "metrics_data data = Inr rows"
  shows "\<exists>cap coc dscr grm one v.
      as_num (getd data ''capRate'' (PInt 0)) = Some cap
    \<and> as_num (getd data ''cashOnCash'' (PInt 0)) = Some coc
    \<and> as_num (getd data ''dscr'' (PInt 0)) = Some dscr
    \<and> as_num (getd data ''grm'' (PInt 0)) = Some grm
    \<and> as_num (getd data ''onePercentRule'' (PInt 0)) = Some one
    \<and> rows = map (map PStr)
        [[''Metric'', ''Value'', ''Target'', ''Status''],
         [''Cap Rate'', v ! 0, ''>= 8%'',
          if cap \<ge> double (8 / 100) then ''GOOD'' else if cap \<ge> double (6 / 100) then ''AVERAGE'' else ''LOW''],
         [''Cash-on-Cash Return'', v ! 2, ''>= 10%'',
          if coc \<ge> double (10 / 100) then ''GOOD'' else if coc \<ge> double (6 / 100) then ''AVERAGE'' else ''LOW''],
         [''Debt Service Coverage Ratio'', v ! 4, ''>= 1.25x'',
          if dscr \<ge> double (125 / 100) then ''STRONG'' else if dscr \<ge> double 1 then ''MARGINAL'' else ''WEAK''],
         [''Gross Rent Multiplier'', v ! 6, ''<= 12'', if grm \<le> 12 then ''GOOD'' else ''HIGH''],
         [''1% Rule'', v ! 8, ''>= 1%'', if one \<ge> double (1 / 100) then ''PASS'' else ''FAIL'']]"
proof -
  let ?cap = "getd data ''capRate'' (PInt 0)"
  let ?coc = "getd data ''cashOnCash'' (PInt 0)"
  let ?dscr = "getd data ''dscr'' (PInt 0)"
  let ?grm = "getd data ''grm'' (PInt 0)"
  let ?one = "getd data ''onePercentRule'' (PInt 0)"
  let ?ms = "[format_percent ?cap,
            three_tier ?cap (double (8 / 100)) (double (6 / 100)) ''GOOD'' ''AVERAGE'' ''LOW'',
            format_percent ?coc,
            three_tier ?coc (double (10 / 100)) (double (6 / 100)) ''GOOD'' ''AVERAGE'' ''LOW'',
            py_format_f False 2 ?dscr,
            three_tier ?dscr (double (125 / 100)) (double 1) ''STRONG'' ''MARGINAL'' ''WEAK'',
            py_format_f False 2 ?grm,
            bind_exn (py_le ?grm 12) (\<lambda>g. Inr (if g then ''GOOD'' else ''HIGH'')),
            format_percent ?one,
            bind_exn (py_ge ?one (double (1 / 100))) (\<lambda>g. Inr (if g then ''PASS'' else ''FAIL''))]"
  from bind_Inr [OF assms [unfolded metrics_data_def Let_def]]
  obtain v where v: "sequence ?ms = Inr v"
    and rows: "rows = map (map PStr)
            [[''Metric'', ''Value'', ''Target'', ''Status''],
             [''Cap Rate'', v ! 0, ''>= 8%'', v ! 1],
             [''Cash-on-Cash Return'', v ! 2, ''>= 10%'', v ! 3],
             [''Debt Service Coverage Ratio'', v ! 4, ''>= 1.25x'', v ! 5],
             [''Gross Rent Multiplier'', v ! 6, ''<= 12'', v ! 7],
             [''1% Rule'', v ! 8, ''>= 1%'', v ! 9]]"
    by auto
  have nth: "\<forall>i<length ?ms. ?ms ! i = Inr (v ! i)" using sequence_Inr_nth [OF v] by blast
  have "?ms ! 1 = Inr (v ! 1)" using nth [rule_format, of 1] by simp
  then have "three_tier ?cap (double (8 / 100)) (double (6 / 100)) ''GOOD'' ''AVERAGE'' ''LOW'' = Inr (v ! 1)" by simp
  then obtain cap where cap: "as_num ?cap = Some cap"
    "v ! 1 = (if cap \<ge> double (8 / 100) then ''GOOD'' else if cap \<ge> double (6 / 100) then ''AVERAGE'' else ''LOW'')"
    using three_tier_Inr by blast
  have "?ms ! 3 = Inr (v ! 3)" using nth [rule_format, of 3] by simp
  then have "three_tier ?coc (double (10 / 100)) (double (6 / 100)) ''GOOD'' ''AVERAGE'' ''LOW'' = Inr (v ! 3)" by simp
  then obtain coc where coc: "as_num ?coc = Some coc"
    "v ! 3 = (if coc \<ge> double (10 / 100) then ''GOOD'' else if coc \<ge> double (6 / 100) then ''AVERAGE'' else ''LOW'')"
    using three_tier_Inr by blast
  have "?ms ! 5 = Inr (v ! 5)" using nth [rule_format, of 5] by simp
  then have "three_tier ?dscr (double (125 / 100)) (double 1) ''STRONG'' ''MARGINAL'' ''WEAK'' = Inr (v ! 5)" by simp
  then obtain dscr where dscr: "as_num ?dscr = Some dscr"
    "v ! 5 = (if dscr \<ge> double (125 / 100) then ''STRONG'' else if dscr \<ge> double 1 then ''MARGINAL'' else ''WEAK'')"
    using three_tier_Inr by blast
  have "?ms ! 7 = Inr (v ! 7)" using nth [rule_format, of 7] by simp
  then have "bind_exn (py_le ?grm 12) (\<lambda>g. Inr (if g then ''GOOD'' else ''HIGH'')) = Inr (v ! 7)" by simp
  then have "\<exists>x. as_num ?grm = Some x \<and> v ! 7 = (if x \<le> 12 then ''GOOD'' else ''HIGH'')"
    by (rule two_tier_Inr(1))
  then obtain grm where grm: "as_num ?grm = Some grm"
    "v ! 7 = (if grm \<le> 12 then ''GOOD'' else ''HIGH'')"
    by blast
  have "?ms ! 9 = Inr (v ! 9)" using nth [rule_format, of 9] by simp
  then have "bind_exn (py_ge ?one (double (1 / 100))) (\<lambda>g. Inr (if g then ''PASS'' else ''FAIL'')) = Inr (v ! 9)" by simp
  then have "\<exists>x. as_num ?one = Some x \<and> v ! 9 = (if x \<ge> double (1 / 100) then ''PASS'' else ''FAIL'')"
    by (rule two_tier_Inr(2))
  then obtain one where one: "as_num ?one = Some one"
    "v ! 9 = (if one \<ge> double (1 / 100) then ''PASS'' else ''FAIL'')"
    by blast
  have rows': "rows = map (map PStr)
        [[''Metric'', ''Value'', ''Target'', ''Status''],
         [''Cap Rate'', v ! 0, ''>= 8%'',
          if cap \<ge> double (8 / 100) then ''GOOD'' else if cap \<ge> double (6 / 100) then ''AVERAGE'' else ''LOW''],
         [''Cash-on-Cash Return'', v ! 2, ''>= 10%'',
          if coc \<ge> double (10 / 100) then ''GOOD'' else if coc \<ge> double (6 / 100) then ''AVERAGE'' else ''LOW''],
         [''Debt Service Coverage Ratio'', v ! 4, ''>= 1.25x'',
          if dscr \<ge> double (125 / 100) then ''STRONG'' else if dscr \<ge> double 1 then ''MARGINAL'' else ''WEAK''],
         [''Gross Rent Multiplier'', v ! 6, ''<= 12'', if grm \<le> 12 then ''GOOD'' else ''HIGH''],
         [''1% Rule'', v ! 8, ''>= 1%'', if one \<ge> double (1 / 100) then ''PASS'' else ''FAIL'']]"
    by (simp only: rows cap(2) [symmetric] coc(2) [symmetric] dscr(2) [symmetric]
        grm(2) [symmetric] one(2) [symmetric])
  from cap(1) coc(1) dscr(1) grm(1) one(1) rows' show ?thesis
    by (intro exI conjI)
qed

lemma metrics_table_Inr:
  assumes "metrics_table data = Inr t"
  shows "\<exists>cap coc dscr grm one.
      as_num (getd data ''capRate'' (PInt 0)) = Some cap
    \<and> as_num (getd data ''cashOnCash'' (PInt 0)) = Some coc
    \<and> as_num (getd data ''dscr'' (PInt 0)) = Some dscr
    \<and> as_num (getd data ''grm'' (PInt 0)) = Some grm
    \<and> as_num (getd data ''onePercentRule'' (PInt 0)) = Some one
    \<and> cell t (3, 1) = PStr (if cap \<ge> double (8 / 100) then ''GOOD'' else if cap \<ge> double (6 / 100) then ''AVERAGE'' else ''LOW'')
    \<and> text_color t (3, 1) = Some (if cap \<ge> double (8 / 100) then SUCCESS else if cap \<ge> double (6 / 100) then WARNING else DANGER)
    \<and> cell t (3, 2) = PStr (if coc \<ge> double (10 / 100) then ''GOOD'' else if coc \<ge> double (6 / 100) then ''AVERAGE'' else ''LOW'')
    \<and> text_color t (3, 2) = Some (if coc \<ge> double (10 / 100) then SUCCESS else if coc \<ge> double (6 / 100) then WARNING else DANGER)
    \<and> cell t (3, 3) = PStr (if dscr \<ge> double (125 / 100) then ''STRONG'' else if dscr \<ge> double 1 then ''MARGINAL'' else ''WEAK'')
    \<and> text_color t (3, 3) = Some (if dscr \<ge> double (125 / 100) then SUCCESS else if dscr \<ge> double 1 then WARNING else DANGER)
    \<and> cell t (3, 4) = PStr (if grm \<le> 12 then ''GOOD'' else ''HIGH'')
    \<and> text_color t (3, 4) = Some (if grm \<le> 12 then SUCCESS else DANGER)
    \<and> cell t (3, 5) = PStr (if one \<ge> double (1 / 100) then ''PASS'' else ''FAIL'')
    \<and> text_color t (3, 5) = Some (if one \<ge> double (1 / 100) then SUCCESS else DANGER)"
proof -
  from bind_Inr [OF assms [unfolded metrics_table_def]]
  obtain rows where rows: "metrics_data data = Inr rows"
    and t: "t = \<lparr>cells = rows,
            colWidths = [5 / 2, 5 / 4, 5 / 4, 3 / 2],
            style =
              [FONTNAME (0, 0) (- 1, 0) ''Helvetica-Bold'',
               FONTNAME (0, 1) (- 1, - 1) ''Helvetica'',
               FONTSIZE (0, 0) (- 1, - 1) 9,
               BACKGROUND (0, 0) (- 1, 0) NAVY,
               TEXTCOLOR (0, 0) (- 1, 0) WHITE,
               ALIGN (1, 0) (- 1, - 1) ''CENTER'',
               BOTTOMPADDING (0, 0) (- 1, - 1) 8,
               TOPPADDING (0, 0) (- 1, - 1) 8,
               LINEBELOW (0, 0) (- 1, - 2) (1 / 2) LIGHT_GRAY,
               GRID (0, 0) (- 1, - 1) (1 / 2) LIGHT_GRAY]
              @ status_colors 1 (tl rows)\<rparr>"
    by auto
  from metrics_data_Inr [OF rows] obtain cap coc dscr grm one v where
    n: "as_num (getd data ''capRate'' (PInt 0)) = Some cap"
      "as_num (getd data ''cashOnCash'' (PInt 0)) = Some coc"
      "as_num (getd data ''dscr'' (PInt 0)) = Some dscr"
      "as_num (getd data ''grm'' (PInt 0)) = Some grm"
      "as_num (getd data ''onePercentRule'' (PInt 0)) = Some one"
    and r: "rows = map (map PStr)
        [[''Metric'', ''Value'', ''Target'', ''Status''],
         [''Cap Rate'', v ! 0, ''>= 8%'',
          if cap \<ge> double (8 / 100) then ''GOOD'' else if cap \<ge> double (6 / 100) then ''AVERAGE'' else ''LOW''],
         [''Cash-on-Cash Return'', v ! 2, ''>= 10%'',
          if coc \<ge> double (10 / 100) then ''GOOD'' else if coc \<ge> double (6 / 100) then ''AVERAGE'' else ''LOW''],
         [''Debt Service Coverage Ratio'', v ! 4, ''>= 1.25x'',
          if dscr \<ge> double (125 / 100) then ''STRONG'' else if dscr \<ge> double 1 then ''MARGINAL'' else ''WEAK''],
         [''Gross Rent Multiplier'', v ! 6, ''<= 12'', if grm \<le> 12 then ''GOOD'' else ''HIGH''],
         [''1% Rule'', v ! 8, ''>= 1%'', if one \<ge> double (1 / 100) then ''PASS'' else ''FAIL'']]"
    by blast
  have c: "cell t (3, i) = rows ! i ! 3" for i by (simp add: cell_def t)
  have tc: "text_color t (3, 1) = Some (status_tint (rows ! 1 ! 3))"
    "text_color t (3, 2) = Some (status_tint (rows ! 2 ! 3))"
    "text_color t (3, 3) = Some (status_tint (rows ! 3 ! 3))"
    "text_color t (3, 4) = Some (status_tint (rows ! 4 ! 3))"
    "text_color t (3, 5) = Some (status_tint (rows ! 5 ! 3))"
    by (simp_all add: t r text_color_def in_range_def resolve_def status_colors_Cons
        del: status_colors.simps(2))
  have l: "rows ! 1 ! 3 = PStr (if cap \<ge> double (8 / 100) then ''GOOD'' else if cap \<ge> double (6 / 100) then ''AVERAGE'' else ''LOW'')"
    "rows ! 2 ! 3 = PStr (if coc \<ge> double (10 / 100) then ''GOOD'' else if coc \<ge> double (6 / 100) then ''AVERAGE'' else ''LOW'')"
    "rows ! 3 ! 3 = PStr (if dscr \<ge> double (125 / 100) then ''STRONG'' else if dscr \<ge> double 1 then ''MARGINAL'' else ''WEAK'')"
    "rows ! 4 ! 3 = PStr (if grm \<le> 12 then ''GOOD'' else ''HIGH'')"
    "rows ! 5 ! 3 = PStr (if one \<ge> double (1 / 100) then ''PASS'' else ''FAIL'')"
    by (simp_all add: r)
  have s: "status_tint (PStr (if a then ''GOOD'' else if b then ''AVERAGE'' else ''LOW''))
             = (if a then SUCCESS else if b then WARNING else DANGER)"
    "status_tint (PStr (if a then ''STRONG'' else if b then ''MARGINAL'' else ''WEAK''))
             = (if a then SUCCESS else if b then WARNING else DANGER)"
    "status_tint (PStr (if a then ''GOOD'' else ''HIGH'')) = (if a then SUCCESS else DANGER)"
    "status_tint (PStr (if a then ''PASS'' else ''FAIL'')) = (if a then SUCCESS else DANGER)"
    for a b
    by (simp_all add: status_tint_def)
  show ?thesis
    apply (rule exI [of _ cap], rule exI [of _ coc], rule exI [of _ dscr], rule exI [of _ grm],
        rule exI [of _ one])
    apply (simp only: n c tc l s)
    done
qed

lemma spec_example_numbers: "numbers_where_read spec_example"
  by (simp add: numbers_where_read_def numeric_fields_def formatted_fields_def spec_example_def
      is_number_def)

lemma boundary_example_numbers: "numbers_where_read boundary_example"
  by (simp add: numbers_where_read_def numeric_fields_def formatted_fields_def
      boundary_example_def is_number_def)


text \<open>
  Claim C1.  In every generated report the Key Metrics table (entry 15 of the story) labels
  its five rows by these thresholds on the numeric value of the field, each threshold being
  the float literal of the source (\<open>double\<close>, see \<open>double_values\<close>): cap rate \<open>GOOD\<close> iff
  \<open>>= 0.08\<close>, \<open>AVERAGE\<close> iff \<open>>= 0.06\<close> and below 0.08, else \<open>LOW\<close>; cash-on-cash \<open>GOOD\<close> iff
  \<open>>= 0.10\<close>, \<open>AVERAGE\<close> iff \<open>>= 0.06\<close>, else \<open>LOW\<close>; DSCR \<open>STRONG\<close> iff \<open>>= 1.25\<close>, \<open>MARGINAL\<close>
  iff \<open>>= 1.0\<close>, else \<open>WEAK\<close>; GRM \<open>GOOD\<close> iff \<open><= 12\<close>, else \<open>HIGH\<close>; 1% rule \<open>PASS\<close> iff
  \<open>>= 0.01\<close>, else \<open>FAIL\<close>.  The status cell of each row is tinted \<open>SUCCESS\<close> for the top
  label, \<open>WARNING\<close> for the middle label and \<open>DANGER\<close> otherwise.  A field given as the
  JSON number \<open>0.06\<close> is the same double as the literal and so reaches the middle tier.
\<close>

theorem key_metrics_status:
  assumes "generate_pdf rt data = Inr story"
  shows "\<exists>t cap coc dscr grm one.
      story ! 15 = TableF t
    \<and> as_num (getd data ''capRate'' (PInt 0)) = Some cap
    \<and> as_num (getd data ''cashOnCash'' (PInt 0)) = Some coc
    \<and> as_num (getd data ''dscr'' (PInt 0)) = Some dscr
    \<and> as_num (getd data ''grm'' (PInt 0)) = Some grm
    \<and> as_num (getd data ''onePercentRule'' (PInt 0)) = Some one
    \<and> cell t (3, 1) = PStr (if cap \<ge> double (8 / 100) then ''GOOD'' else if cap \<ge> double (6 / 100) then ''AVERAGE'' else ''LOW'')
    \<and> text_color t (3, 1) = Some (if cap \<ge> double (8 / 100) then SUCCESS else if cap \<ge> double (6 / 100) then WARNING else DANGER)
    \<and> cell t (3, 2) = PStr (if coc \<ge> double (10 / 100) then ''GOOD'' else if coc \<ge> double (6 / 100) then ''AVERAGE'' else ''LOW'')
    \<and> text_color t (3, 2) = Some (if coc \<ge> double (10 / 100) then SUCCESS else if coc \<ge> double (6 / 100) then WARNING else DANGER)
    \<and> cell t (3, 3) = PStr (if dscr \<ge> double (125 / 100) then ''STRONG'' else if dscr \<ge> double 1 then ''MARGINAL'' else ''WEAK'')
    \<and> text_color t (3, 3) = Some (if dscr \<ge> double (125 / 100) then SUCCESS else if dscr \<ge> double 1 then WARNING else DANGER)
    \<and> cell t (3, 4) = PStr (if grm \<le> 12 then ''GOOD'' else ''HIGH'')
    \<and> text_color t (3, 4) = Some (if grm \<le> 12 then SUCCESS else DANGER)
    \<and> cell t (3, 5) = PStr (if one \<ge> double (1 / 100) then ''PASS'' else ''FAIL'')
    \<and> text_color t (3, 5) = Some (if one \<ge> double (1 / 100) then SUCCESS else DANGER)"
proof -
  from generate_pdf_story [OF assms] obtain t where t: "metrics_table data = Inr t"
    and s: "story ! 15 = TableF t" by blast
  from metrics_table_Inr [OF t] s show ?thesis by blast
qed

theorem key_metrics_status_witness:
  "(\<exists>story t. generate_pdf sample_runtime spec_example = Inr story
     \<and> story ! 15 = TableF t
     \<and> cell t (3, 1) = PStr ''GOOD'' \<and> text_color t (3, 1) = Some SUCCESS
     \<and> cell t (3, 2) = PStr ''GOOD'' \<and> text_color t (3, 2) = Some SUCCESS
     \<and> cell t (3, 3) = PStr ''STRONG'' \<and> text_color t (3, 3) = Some SUCCESS
     \<and> cell t (3, 4) = PStr ''GOOD'' \<and> text_color t (3, 4) = Some SUCCESS
     \<and> cell t (3, 5) = PStr ''PASS'' \<and> text_color t (3, 5) = Some SUCCESS)
   \<and> (\<exists>story t. generate_pdf sample_runtime boundary_example = Inr story
     \<and> story ! 15 = TableF t
     \<and> cell t (3, 1) = PStr ''AVERAGE'' \<and> text_color t (3, 1) = Some WARNING
     \<and> cell t (3, 2) = PStr ''AVERAGE'' \<and> text_color t (3, 2) = Some WARNING
     \<and> cell t (3, 3) = PStr ''MARGINAL'' \<and> text_color t (3, 3) = Some WARNING
     \<and> cell t (3, 4) = PStr ''GOOD'' \<and> text_color t (3, 4) = Some SUCCESS
     \<and> cell t (3, 5) = PStr ''PASS'' \<and> text_color t (3, 5) = Some SUCCESS)"
proof (intro conjI)
  obtain story where story: "generate_pdf sample_runtime spec_example = Inr story"
    using generate_pdf_total [OF spec_example_numbers] by blast
  have v: "as_num (getd spec_example ''capRate'' (PInt 0)) = Some (double (85 / 1000))"
    "as_num (getd spec_example ''cashOnCash'' (PInt 0)) = Some (double (11 / 100))"
    "as_num (getd spec_example ''dscr'' (PInt 0)) = Some (double (13 / 10))"
    "as_num (getd spec_example ''grm'' (PInt 0)) = Some (double (105 / 10))"
    "as_num (getd spec_example ''onePercentRule'' (PInt 0)) = Some (double (1 / 100))"
    by (simp_all add: getd_def spec_example_def)
  have c: "double (85 / 1000) \<ge> double (8 / 100)"
    "double (11 / 100) \<ge> double (10 / 100)"
    "double (13 / 10) \<ge> double (125 / 100)"
    "double (105 / 10) \<le> 12"
    by code_simp+
  from key_metrics_status [OF story] obtain t where
    "story ! 15 = TableF t"
    "cell t (3, 1) = PStr ''GOOD''" "text_color t (3, 1) = Some SUCCESS"
    "cell t (3, 2) = PStr ''GOOD''" "text_color t (3, 2) = Some SUCCESS"
    "cell t (3, 3) = PStr ''STRONG''" "text_color t (3, 3) = Some SUCCESS"
    "cell t (3, 4) = PStr ''GOOD''" "text_color t (3, 4) = Some SUCCESS"
    "cell t (3, 5) = PStr ''PASS''" "text_color t (3, 5) = Some SUCCESS"
    unfolding v using c by auto
  with story show "\<exists>story t. generate_pdf sample_runtime spec_example = Inr story
     \<and> story ! 15 = TableF t
     \<and> cell t (3, 1) = PStr ''GOOD'' \<and> text_color t (3, 1) = Some SUCCESS
     \<and> cell t (3, 2) = PStr ''GOOD'' \<and> text_color t (3, 2) = Some SUCCESS
     \<and> cell t (3, 3) = PStr ''STRONG'' \<and> text_color t (3, 3) = Some SUCCESS
     \<and> cell t (3, 4) = PStr ''GOOD'' \<and> text_color t (3, 4) = Some SUCCESS
     \<and> cell t (3, 5) = PStr ''PASS'' \<and> text_color t (3, 5) = Some SUCCESS"
    by blast
next
  obtain story where story: "generate_pdf sample_runtime boundary_example = Inr story"
    using generate_pdf_total [OF boundary_example_numbers] by blast
  have v: "as_num (getd boundary_example ''capRate'' (PInt 0)) = Some (double (6 / 100))"
    "as_num (getd boundary_example ''cashOnCash'' (PInt 0)) = Some (double (6 / 100))"
    "as_num (getd boundary_example ''dscr'' (PInt 0)) = Some (double 1)"
    "as_num (getd boundary_example ''grm'' (PInt 0)) = Some 12"
    "as_num (getd boundary_example ''onePercentRule'' (PInt 0)) = Some (double (1 / 100))"
    by (simp_all add: getd_def boundary_example_def)
  have c: "\<not> double (6 / 100) \<ge> double (8 / 100)"
    "\<not> double (6 / 100) \<ge> double (10 / 100)"
    "\<not> double 1 \<ge> double (125 / 100)"
    by code_simp+
  from key_metrics_status [OF story] obtain t where
    "story ! 15 = TableF t"
    "cell t (3, 1) = PStr ''AVERAGE''" "text_color t (3, 1) = Some WARNING"
    "cell t (3, 2) = PStr ''AVERAGE''" "text_color t (3, 2) = Some WARNING"
    "cell t (3, 3) = PStr ''MARGINAL''" "text_color t (3, 3) = Some WARNING"
    "cell t (3, 4) = PStr ''GOOD''" "text_color t (3, 4) = Some SUCCESS"
    "cell t (3, 5) = PStr ''PASS''" "text_color t (3, 5) = Some SUCCESS"
    unfolding v using c by auto
  with story show "\<exists>story t. generate_pdf sample_runtime boundary_example = Inr story
     \<and> story ! 15 = TableF t
     \<and> cell t (3, 1) = PStr ''AVERAGE'' \<and> text_color t (3, 1) = Some WARNING
     \<and> cell t (3, 2) = PStr ''AVERAGE'' \<and> text_color t (3, 2) = Some WARNING
     \<and> cell t (3, 3) = PStr ''MARGINAL'' \<and> text_color t (3, 3) = Some WARNING
     \<and> cell t (3, 4) = PStr ''GOOD'' \<and> text_color t (3, 4) = Some SUCCESS
     \<and> cell t (3, 5) = PStr ''PASS'' \<and> text_color t (3, 5) = Some SUCCESS"
    by blast
qed

text \<open>
  Claim C2.  In the Quick Rules Check table (entry 18 of the story) a rule whose boolean is
  true is labelled \<open>PASS\<close> (\<open>YES\<close> for the cash-flow rule) and tinted \<open>SUCCESS\<close>; a rule whose
  boolean is false is labelled \<open>REVIEW\<close> and tinted \<open>WARNING\<close> for the 50% rule, and labelled
  \<open>FAIL\<close> (\<open>NO\<close> for the cash-flow rule) and tinted \<open>DANGER\<close> for the others; a missing boolean
  counts as false.
\<close>

theorem rules_check_outcomes:
  "(let t = rules_table data;
        on = (\<lambda>k. truthy (getd data k (PBool False)))
    in cell t (1, 1) = PStr (if on ''rule1Pass'' then ''PASS'' else ''FAIL'')
     \<and> text_color t (1, 1) = Some (if on ''rule1Pass'' then SUCCESS else DANGER)
     \<and> cell t (1, 2) = PStr (if on ''rule2Pass'' then ''PASS'' else ''FAIL'')
     \<and> text_color t (1, 2) = Some (if on ''rule2Pass'' then SUCCESS else DANGER)
     \<and> cell t (1, 3) = PStr (if on ''rule50Pass'' then ''PASS'' else ''REVIEW'')
     \<and> text_color t (1, 3) = Some (if on ''rule50Pass'' then SUCCESS else WARNING)
     \<and> cell t (1, 4) = PStr (if on ''rule70Pass'' then ''PASS'' else ''FAIL'')
     \<and> text_color t (1, 4) = Some (if on ''rule70Pass'' then SUCCESS else DANGER)
     \<and> cell t (1, 5) = PStr (if on ''cashFlowPositivePass'' then ''YES'' else ''NO'')
     \<and> text_color t (1, 5) = Some (if on ''cashFlowPositivePass'' then SUCCESS else DANGER)
     \<and> on k = (case data k of None \<Rightarrow> False | Some v \<Rightarrow> truthy v)
     \<and> truthy (PBool b) = b
     \<and> (generate_pdf rt data = Inr story \<longrightarrow> story ! 18 = TableF t))"
proof -
  let ?t = "rules_table data"
  have c: "cell ?t (1, 1) = rules_data data ! 1 ! 1" "cell ?t (1, 2) = rules_data data ! 2 ! 1"
    "cell ?t (1, 3) = rules_data data ! 3 ! 1" "cell ?t (1, 4) = rules_data data ! 4 ! 1"
    "cell ?t (1, 5) = rules_data data ! 5 ! 1"
    by (simp_all add: cell_def rules_table_def)
  have tc: "text_color ?t (1, 1) = Some (result_tint (rules_data data ! 1 ! 1))"
    "text_color ?t (1, 2) = Some (result_tint (rules_data data ! 2 ! 1))"
    "text_color ?t (1, 3) = Some (result_tint (rules_data data ! 3 ! 1))"
    "text_color ?t (1, 4) = Some (result_tint (rules_data data ! 4 ! 1))"
    "text_color ?t (1, 5) = Some (result_tint (rules_data data ! 5 ! 1))"
    by (simp_all add: rules_table_def rules_data_def text_color_def in_range_def resolve_def
        result_colors_Cons del: result_colors.simps(2))
  have l: "rules_data data ! 1 ! 1
             = PStr (if truthy (getd data ''rule1Pass'' (PBool False)) then ''PASS'' else ''FAIL'')"
    "rules_data data ! 2 ! 1
             = PStr (if truthy (getd data ''rule2Pass'' (PBool False)) then ''PASS'' else ''FAIL'')"
    "rules_data data ! 3 ! 1
             = PStr (if truthy (getd data ''rule50Pass'' (PBool False)) then ''PASS'' else ''REVIEW'')"
    "rules_data data ! 4 ! 1
             = PStr (if truthy (getd data ''rule70Pass'' (PBool False)) then ''PASS'' else ''FAIL'')"
    "rules_data data ! 5 ! 1
             = PStr (if truthy (getd data ''cashFlowPositivePass'' (PBool False)) then ''YES'' else ''NO'')"
    by (simp_all add: rules_data_def)
  have s: "result_tint (PStr (if a then ''PASS'' else ''FAIL'')) = (if a then SUCCESS else DANGER)"
    "result_tint (PStr (if a then ''PASS'' else ''REVIEW'')) = (if a then SUCCESS else WARNING)"
    "result_tint (PStr (if a then ''YES'' else ''NO'')) = (if a then SUCCESS else DANGER)"
    for a
    by (simp_all add: result_tint_def)
  have d: "truthy (getd data k (PBool False)) = (case data k of None \<Rightarrow> False | Some v \<Rightarrow> truthy v)"
    by (simp add: getd_def split: option.splits)
  have g: "generate_pdf rt data = Inr story \<longrightarrow> story ! 18 = TableF ?t"
    using generate_pdf_story by blast
  show ?thesis
    unfolding Let_def
    apply (simp only: c tc l s)
    using d g apply simp
    done
qed

theorem rules_check_outcomes_witness:
  "\<exists>story. generate_pdf sample_runtime spec_example = Inr story
     \<and> story ! 18 = TableF (rules_table spec_example)
     \<and> cell (rules_table spec_example) (1, 1) = PStr ''PASS''
     \<and> text_color (rules_table spec_example) (1, 1) = Some SUCCESS
     \<and> cell (rules_table spec_example) (1, 2) = PStr ''FAIL''
     \<and> text_color (rules_table spec_example) (1, 2) = Some DANGER"
proof -
  obtain story where story: "generate_pdf sample_runtime spec_example = Inr story"
    using generate_pdf_total [OF spec_example_numbers] by blast
  have v: "getd spec_example ''rule1Pass'' (PBool False) = PBool True"
    "getd spec_example ''rule2Pass'' (PBool False) = PBool False"
    by (simp_all add: getd_def spec_example_def)
  from rules_check_outcomes [of spec_example "''rule1Pass''" True sample_runtime story] story v
  show ?thesis
    unfolding Let_def by auto
qed

text \<open>
  Claim C3.  The tint of the Deal Verdict cell (entry 20 of the story) is a function of the
  verdict alone: \<open>STRONG BUY\<close> gives \<open>SUCCESS\<close>, \<open>CONSIDER\<close> gives \<open>CYAN\<close>, \<open>REVIEW\<close> gives
  \<open>WARNING\<close> and anything else \<open>DANGER\<close>; a missing verdict is \<open>REVIEW\<close>, hence \<open>WARNING\<close>.
\<close>

theorem verdict_tint:
  "(let verdict = getd data ''verdict'' (PStr ''REVIEW'');
        t = verdict_table data
    in verdict = (case data ''verdict'' of None \<Rightarrow> PStr ''REVIEW'' | Some v \<Rightarrow> v)
     \<and> cell t (1, 0) = verdict
     \<and> text_color t (1, 0)
         = Some (if verdict = PStr ''STRONG BUY'' then SUCCESS
                 else if verdict = PStr ''CONSIDER'' then CYAN
                 else if verdict = PStr ''REVIEW'' then WARNING
                 else DANGER)
     \<and> (generate_pdf rt data = Inr story \<longrightarrow> story ! 20 = TableF t))
   \<and> cell (verdict_table Map.empty) (1, 0) = PStr ''REVIEW''
   \<and> text_color (verdict_table Map.empty) (1, 0) = Some WARNING"
proof -
  have g: "generate_pdf rt data = Inr story \<longrightarrow> story ! 20 = TableF (verdict_table data)"
    using generate_pdf_story by blast
  have d: "getd data ''verdict'' (PStr ''REVIEW'')
             = (case data ''verdict'' of None \<Rightarrow> PStr ''REVIEW'' | Some v \<Rightarrow> v)"
    by (simp add: getd_def)
  have c: "cell (verdict_table x) (1, 0) = getd x ''verdict'' (PStr ''REVIEW'')" for x
    by (simp add: cell_def verdict_table_def Let_def)
  have tc: "text_color (verdict_table x) (1, 0)
              = Some (verdict_color (getd x ''verdict'' (PStr ''REVIEW'')))" for x
    by (simp add: verdict_table_def Let_def text_color_def in_range_def resolve_def)
  have e: "getd Map.empty ''verdict'' (PStr ''REVIEW'') = PStr ''REVIEW''"
    by (simp add: getd_def)
  show ?thesis
    unfolding Let_def c tc e using g d by (simp add: verdict_color_def)
qed

theorem verdict_tint_witness:
  "\<exists>story. generate_pdf sample_runtime spec_example = Inr story
     \<and> story ! 20 = TableF (verdict_table spec_example)
     \<and> cell (verdict_table spec_example) (1, 0) = PStr ''STRONG BUY''
     \<and> text_color (verdict_table spec_example) (1, 0) = Some SUCCESS"
proof -
  obtain story where story: "generate_pdf sample_runtime spec_example = Inr story"
    using generate_pdf_total [OF spec_example_numbers] by blast
  have v: "getd spec_example ''verdict'' (PStr ''REVIEW'') = PStr ''STRONG BUY''"
    by (simp add: getd_def spec_example_def)
  from verdict_tint [of spec_example sample_runtime story] story v
  show ?thesis
    unfolding Let_def by auto
qed

text \<open>
  Claim C4 does not hold of the code.  The colour \<open>cf_color\<close> follows the sign of the monthly
  cash flow, but the Cash-Flow Highlight table does not use it: for a positive and for a
  negative cash flow alike both value cells are \<open>WHITE\<close>, and \<open>WHITE\<close> and \<open>NAVY\<close> are the only
  colours of the table's style.
\<close>

theorem cashflow_tint_unused:
  "cf_color (map_of [(''monthlyCashFlow'', PInt 250), (''annualCashFlow'', PInt 3000)]) = Inr SUCCESS
   \<and> cf_color (map_of [(''monthlyCashFlow'', PInt (- 250)), (''annualCashFlow'', PInt (- 3000))]) = Inr DANGER
   \<and> (case cashflow_table (map_of [(''monthlyCashFlow'', PInt 250), (''annualCashFlow'', PInt 3000)]) of
         Inl e \<Rightarrow> False
       | Inr t \<Rightarrow>
           cells t = [[PStr ''MONTHLY CASH FLOW'', PStr ''$250''], [PStr ''ANNUAL CASH FLOW'', PStr ''$3,000'']]
           \<and> text_color t (1, 0) = Some WHITE \<and> text_color t (1, 1) = Some WHITE
           \<and> concat (map cmd_colors (style t)) = [WHITE, WHITE, NAVY])
   \<and> (case cashflow_table (map_of [(''monthlyCashFlow'', PInt (- 250)), (''annualCashFlow'', PInt (- 3000))]) of
         Inl e \<Rightarrow> False
       | Inr t \<Rightarrow>
           cells t = [[PStr ''MONTHLY CASH FLOW'', PStr ''$-250''], [PStr ''ANNUAL CASH FLOW'', PStr ''$-3,000'']]
           \<and> text_color t (1, 0) = Some WHITE \<and> text_color t (1, 1) = Some WHITE
           \<and> concat (map cmd_colors (style t)) = [WHITE, WHITE, NAVY])"
  by code_simp

section \<open>Missing and malformed fields\<close>




section \<open>File names\<close>

lemma replace_removes: "c \<notin> set new \<Longrightarrow> c \<notin> set (replace c new s)"
  by (induction s) (auto simp: replace_def)

lemma replace_keeps_out: "x \<notin> set s \<Longrightarrow> x \<notin> set new \<Longrightarrow> x \<notin> set (replace c new s)"
  by (induction s) (auto simp: replace_def)

lemma take_keeps_out: "x \<notin> set s \<Longrightarrow> x \<notin> set (take n s)"
  by (auto dest: in_set_takeD)

text \<open>
  Claim C8 does not hold of the code.  The download route removes commas and periods and
  replaces spaces, and cuts the result to 30 characters; the mail route does the same except
  that it leaves the periods in: for the address \<open>123 Main St., Apt #4\<close> the attachment is
  named \<open>Investment_Analysis_123_Main_St._Apt_#4.pdf\<close>.
\<close>

theorem email_filename_keeps_periods:
  "email_safe_address ''123 Main St., Apt #4'' = ''123_Main_St._Apt_#4''
   \<and> CHR ''.'' \<in> set (email_safe_address ''123 Main St., Apt #4'')
   \<and> download_safe_address ''123 Main St., Apt #4'' = ''123_Main_St_Apt_#4''
   \<and> (case send_email sample_config (\<lambda>c. None) sample_runtime address_example [] of
         (events, result) \<Rightarrow>
           result = Inr True
           \<and> map attachment_filename (concat (map (\<lambda>e. case e of Smtp (SendMessage msg) \<Rightarrow> [msg] | _ \<Rightarrow> []) events))
               = [''Investment_Analysis_123_Main_St._Apt_#4.pdf''])
   \<and> (case generate_report sample_runtime address_example of
         PdfResponse filename pdf \<Rightarrow> filename = ''Investment_Analysis_123_Main_St_Apt_#4.pdf''
       | ErrorResponse status e \<Rightarrow> False)
   \<and> CHR '' '' \<notin> set (download_safe_address s)
   \<and> CHR '','' \<notin> set (download_safe_address s)
   \<and> CHR ''.'' \<notin> set (download_safe_address s)
   \<and> length (download_safe_address s) \<le> 30
   \<and> CHR '' '' \<notin> set (email_safe_address s)
   \<and> CHR '','' \<notin> set (email_safe_address s)
   \<and> length (email_safe_address s) \<le> 30"
proof (intro conjI)
  show "email_safe_address ''123 Main St., Apt #4'' = ''123_Main_St._Apt_#4''"
    by (simp add: email_safe_address_def replace_def)
  then show "CHR ''.'' \<in> set (email_safe_address ''123 Main St., Apt #4'')" by simp
  show "download_safe_address ''123 Main St., Apt #4'' = ''123_Main_St_Apt_#4''"
    by (simp add: download_safe_address_def replace_def)
  show "case send_email sample_config (\<lambda>c. None) sample_runtime address_example [] of
         (events, result) \<Rightarrow>
           result = Inr True
           \<and> map attachment_filename (concat (map (\<lambda>e. case e of Smtp (SendMessage msg) \<Rightarrow> [msg] | _ \<Rightarrow> []) events))
               = [''Investment_Analysis_123_Main_St._Apt_#4.pdf'']"
    by (simp add: send_email_def sample_config_def address_example_def getd_def
        email_safe_address_def replace_def)
  show "case generate_report sample_runtime address_example of
         PdfResponse filename pdf \<Rightarrow> filename = ''Investment_Analysis_123_Main_St_Apt_#4.pdf''
       | ErrorResponse status e \<Rightarrow> False"
    by code_simp
  show "CHR '' '' \<notin> set (download_safe_address s)"
    unfolding download_safe_address_def
    by (intro take_keeps_out replace_keeps_out replace_removes) simp_all
  show "CHR '','' \<notin> set (download_safe_address s)"
    unfolding download_safe_address_def
    by (intro take_keeps_out replace_keeps_out replace_removes) simp_all
  show "CHR ''.'' \<notin> set (download_safe_address s)"
    unfolding download_safe_address_def
    by (intro take_keeps_out replace_removes) simp_all
  show "length (download_safe_address s) \<le> 30" by (simp add: download_safe_address_def)
  show "CHR '' '' \<notin> set (email_safe_address s)"
    unfolding email_safe_address_def
    by (intro take_keeps_out replace_keeps_out replace_removes) simp_all
  show "CHR '','' \<notin> set (email_safe_address s)"
    unfolding email_safe_address_def
    by (intro take_keeps_out replace_removes) simp_all
  show "length (email_safe_address s) \<le> 30" by (simp add: email_safe_address_def)
qed

section \<open>Mail delivery\<close>

lemma run_smtp_failure:
  "run_smtp transport cs = (evs, r) \<Longrightarrow> Smtp c \<in> set evs \<Longrightarrow> transport c = Some m \<Longrightarrow> r = Some m"
proof (induction cs arbitrary: evs r)
  case Nil
  then show ?case by simp
next
  case (Cons a cs)
  show ?case
  proof (cases "transport a")
    case (Some m')
    then have "evs = [Smtp a]" "r = Some m'" using Cons.prems(1) by simp_all
    then show ?thesis using Cons.prems(2,3) Some by simp
  next
    case None
    obtain evs' r' where rec: "run_smtp transport cs = (evs', r')" by (cases "run_smtp transport cs")
    then have e: "evs = Smtp a # evs'" "r = r'" using Cons.prems(1) None by simp_all
    have "c \<noteq> a" using None Cons.prems(3) by auto
    then have "Smtp c \<in> set evs'" using Cons.prems(2) e by simp
    then show ?thesis using Cons.IH [OF rec _ Cons.prems(3)] e by simp
  qed
qed

lemma run_smtp_first:
  "run_smtp transport (c # cs) = (evs, r) \<Longrightarrow> Smtp c \<in> set evs"
  by (auto split: option.splits prod.splits)

lemma run_smtp_success:
  "run_smtp transport cs = (evs, None) \<Longrightarrow> evs = map Smtp cs \<and> (\<forall>c\<in>set cs. transport c = None)"
  by (induction cs arbitrary: evs) (auto split: option.splits prod.splits)

text \<open>
  Claim C9.  Without a mail user or password \<open>send_email\<close> returns \<open>True\<close> and makes no SMTP
  call.  With both, the SMTP connection is attempted as soon as the message is composed, a
  call that fails makes \<open>send_email\<close> raise that failure, and \<open>True\<close> is returned only when
  no attempted call failed.
\<close>

theorem send_email_outcomes:
  "(EMAIL_USER cfg = [] \<or> EMAIL_PASSWORD cfg = [] \<longrightarrow>
      snd (send_email cfg transport rt data pdf) = Inr True
      \<and> (\<forall>c. Smtp c \<notin> set (fst (send_email cfg transport rt data pdf))))
   \<and> (EMAIL_USER cfg \<noteq> [] \<and> EMAIL_PASSWORD cfg \<noteq> []
        \<and> Smtp c \<in> set (fst (send_email cfg transport rt data pdf)) \<and> transport c = Some m \<longrightarrow>
      snd (send_email cfg transport rt data pdf) = Inl (TransportError m))
   \<and> (EMAIL_USER cfg \<noteq> [] \<and> EMAIL_PASSWORD cfg \<noteq> []
        \<and> getd data ''propertyAddress'' (PStr ''Investment Property'') = PStr a \<longrightarrow>
      Smtp (Connect (EMAIL_HOST cfg) (EMAIL_PORT cfg)) \<in> set (fst (send_email cfg transport rt data pdf)))
   \<and> (EMAIL_USER cfg \<noteq> [] \<and> EMAIL_PASSWORD cfg \<noteq> []
        \<and> snd (send_email cfg transport rt data pdf) = Inr True \<longrightarrow>
      (\<forall>c. Smtp c \<in> set (fst (send_email cfg transport rt data pdf)) \<longrightarrow> transport c = None))"
proof -
  have unconfigured: "EMAIL_USER cfg = [] \<or> EMAIL_PASSWORD cfg = [] \<longrightarrow>
      snd (send_email cfg transport rt data pdf) = Inr True
      \<and> (\<forall>c. Smtp c \<notin> set (fst (send_email cfg transport rt data pdf)))"
    by (auto simp: send_email_def Let_def)
  have failure: "EMAIL_USER cfg \<noteq> [] \<and> EMAIL_PASSWORD cfg \<noteq> []
        \<and> Smtp c \<in> set (fst (send_email cfg transport rt data pdf)) \<and> transport c = Some m \<longrightarrow>
      snd (send_email cfg transport rt data pdf) = Inl (TransportError m)"
    by (auto simp: send_email_def Let_def split: sum.splits prod.splits option.splits
        dest: run_smtp_failure)
  have attempted: "EMAIL_USER cfg \<noteq> [] \<and> EMAIL_PASSWORD cfg \<noteq> []
        \<and> getd data ''propertyAddress'' (PStr ''Investment Property'') = PStr a \<longrightarrow>
      Smtp (Connect (EMAIL_HOST cfg) (EMAIL_PORT cfg)) \<in> set (fst (send_email cfg transport rt data pdf))"
    by (auto simp: send_email_def Let_def split: sum.splits prod.splits option.splits)
  have success: "EMAIL_USER cfg \<noteq> [] \<and> EMAIL_PASSWORD cfg \<noteq> []
        \<and> snd (send_email cfg transport rt data pdf) = Inr True \<longrightarrow>
      (\<forall>c. Smtp c \<in> set (fst (send_email cfg transport rt data pdf)) \<longrightarrow> transport c = None)"
    by (auto simp: send_email_def Let_def split: sum.splits prod.splits option.splits
        dest!: run_smtp_success)
  show ?thesis by (intro conjI unconfigured failure attempted success)
qed

theorem send_email_outcomes_witness:
  "EMAIL_USER (sample_config\<lparr>EMAIL_USER := ''''\<rparr>) = []
   \<and> send_email (sample_config\<lparr>EMAIL_USER := ''''\<rparr>) (\<lambda>c. Some ''unreachable'') sample_runtime Map.empty []
       = ([Print ''Email would be sent to: None'', Print ''PDF generated for: Investment Property''], Inr True)
   \<and> EMAIL_USER sample_config \<noteq> [] \<and> EMAIL_PASSWORD sample_config \<noteq> []
   \<and> Smtp (Login ''user'' ''password'')
        \<in> set (fst (send_email sample_config (\<lambda>c. if c = Login ''user'' ''password'' then Some ''535 rejected'' else None)
                      sample_runtime Map.empty []))
   \<and> snd (send_email sample_config (\<lambda>c. if c = Login ''user'' ''password'' then Some ''535 rejected'' else None)
             sample_runtime Map.empty [])
       = Inl (TransportError ''535 rejected'')"
proof -
  have a: "send_email (sample_config\<lparr>EMAIL_USER := ''''\<rparr>) (\<lambda>c. Some ''unreachable'') sample_runtime Map.empty []
       = ([Print ''Email would be sent to: None'', Print ''PDF generated for: Investment Property''], Inr True)"
    by (simp add: send_email_def sample_config_def getd_def)
  have b: "Smtp (Login ''user'' ''password'')
        \<in> set (fst (send_email sample_config (\<lambda>c. if c = Login ''user'' ''password'' then Some ''535 rejected'' else None)
                      sample_runtime Map.empty []))"
    by (simp add: send_email_def sample_config_def getd_def)
  have c: "EMAIL_USER sample_config \<noteq> [] \<and> EMAIL_PASSWORD sample_config \<noteq> []"
    by (simp add: sample_config_def)
  from send_email_outcomes [of "sample_config\<lparr>EMAIL_USER := ''''\<rparr>" "\<lambda>c. Some ''unreachable''" sample_runtime Map.empty "[]"]
    send_email_outcomes [of sample_config "\<lambda>c. if c = Login ''user'' ''password'' then Some ''535 rejected'' else None"
      sample_runtime Map.empty "[]" "Login ''user'' ''password''" "''535 rejected''"]
    a b c
  show ?thesis by simp
qed

end
